theory Spec2Isabelle
  imports Main "HOL-Library.Word" "HOL-Library.AList"
begin

unbundle bit_operations_syntax

section \<open>JavaScript values and strings\<close>

text \<open>
  The program treats everything as untyped JSON-shaped value trees.  Numbers are modelled
  as integers (counters, timestamps in milliseconds, whole seconds of time-to-live);
  objects keep their keys in insertion order, as JavaScript objects with string keys do.
  \<open>undefined\<close> is not a JSON value: where the source can hold it, the model has an option
  with \<open>None\<close> for \<open>undefined\<close>.
\<close>

datatype jsval =
    JNull
  | JBool bool
  | JNum int
  | JStr string
  | JArr "jsval list"
  | JObj "(string \<times> jsval) list"

text \<open>
  Strings are lists of 8-bit characters, standing for the code units below 256.  The case
  maps act on the ASCII letters, which is all that HTTP methods and header names contain.
\<close>

definition upper_letters :: string where
  "upper_letters = ''ABCDEFGHIJKLMNOPQRSTUVWXYZ''"

definition lower_letters :: string where
  "lower_letters = ''abcdefghijklmnopqrstuvwxyz''"

definition toLowerChar :: "char \<Rightarrow> char" where
  "toLowerChar c = (case map_of (zip upper_letters lower_letters) c of Some d \<Rightarrow> d | None \<Rightarrow> c)"

definition toUpperChar :: "char \<Rightarrow> char" where
  "toUpperChar c = (case map_of (zip lower_letters upper_letters) c of Some d \<Rightarrow> d | None \<Rightarrow> c)"

definition toLowerCase :: "string \<Rightarrow> string" where
  "toLowerCase s = map toLowerChar s"

definition toUpperCase :: "string \<Rightarrow> string" where
  "toUpperCase s = map toUpperChar s"

text \<open>White space as \<open>String.prototype.trim\<close> and the regex class \<open>\s\<close> see it.\<close>

definition js_space :: "char \<Rightarrow> bool" where
  "js_space c = (of_char c \<in> {9, 10, 11, 12, 13, 32, 160 :: nat})"

definition trim :: "string \<Rightarrow> string" where
  "trim s = rev (dropWhile js_space (rev (dropWhile js_space s)))"

text \<open>\<open>s.split(c)\<close> for a one-character separator: the empty string splits into one empty piece.\<close>

fun split_on :: "char \<Rightarrow> string \<Rightarrow> string list" where
  "split_on c [] = [[]]"
| "split_on c (x # xs) =
     (if x = c then [] # split_on c xs
      else (case split_on c xs of [] \<Rightarrow> [[x]] | y # ys \<Rightarrow> (x # y) # ys))"

fun join_with :: "string \<Rightarrow> string list \<Rightarrow> string" where
  "join_with sep [] = []"
| "join_with sep [x] = x"
| "join_with sep (x # y # ys) = x @ sep @ join_with sep (y # ys)"

text \<open>A JavaScript string is truthy when it is there and not empty.\<close>

definition truthy_str :: "string option \<Rightarrow> bool" where
  "truthy_str v = (case v of None \<Rightarrow> False | Some s \<Rightarrow> s \<noteq> [])"

section \<open>Router (router.js)\<close>

subsection \<open>Parsing the incoming request\<close>

text \<open>
  A Node request gives each header as a string or an array of strings.  The URL object
  built from \<open>req.url\<close> gives the path name and the search parameters as an ordered
  sequence of decoded key/value pairs, repeats included; that parser is the platform's and
  is taken as given.
\<close>

datatype header_value = HStr string | HArr "string list"

record incoming_message =
  im_method :: "string option"
  im_headers :: "(string \<times> header_value) list"

record parsed_url =
  url_pathname :: string
  url_searchParams :: "(string \<times> string) list"

record sandbox_request =
  req_method :: string
  req_path :: string
  req_query :: "string \<rightharpoonup> string"
  req_headers :: "string \<rightharpoonup> string"
  req_cookies :: "string \<rightharpoonup> string"

text \<open>\<open>Array.isArray(value) ? value[0] : value\<close>; the first element of an empty array is \<open>undefined\<close>.\<close>

fun header_first :: "header_value \<Rightarrow> string option" where
  "header_first (HStr s) = Some s"
| "header_first (HArr []) = None"
| "header_first (HArr (x # xs)) = Some x"

text \<open>The loop \<open>for (const [key, value] of url.searchParams.entries()) query[key] = value\<close>.\<close>

definition parse_query :: "(string \<times> string) list \<Rightarrow> (string \<rightharpoonup> string)" where
  "parse_query entries = fold (\<lambda>(key, v) query. query(key \<mapsto> v)) entries Map.empty"

definition parse_headers :: "(string \<times> header_value) list \<Rightarrow> (string \<rightharpoonup> string)" where
  "parse_headers entries =
     fold (\<lambda>(key, v) headers. headers(toLowerCase key := header_first v)) entries Map.empty"

text \<open>One \<open>name=value\<close> pair of the Cookie header; the value may itself contain \<open>=\<close>.\<close>

definition add_cookie :: "string \<Rightarrow> (string \<rightharpoonup> string) \<Rightarrow> (string \<rightharpoonup> string)" where
  "add_cookie pair cookies =
     (case split_on CHR ''='' pair of
        [] \<Rightarrow> cookies
      | name # valueParts \<Rightarrow>
          if name \<noteq> [] \<and> valueParts \<noteq> []
          then cookies(trim name \<mapsto> trim (join_with ''='' valueParts))
          else cookies)"

definition parse_cookies :: "string option \<Rightarrow> (string \<rightharpoonup> string)" where
  "parse_cookies cookieHeader =
     (if truthy_str cookieHeader
      then fold add_cookie (map trim (split_on CHR '';'' (the cookieHeader))) Map.empty
      else Map.empty)"

definition parseRequest :: "parsed_url \<Rightarrow> incoming_message \<Rightarrow> sandbox_request" where
  "parseRequest url req =
     (let query = parse_query (url_searchParams url);
          headers = parse_headers (im_headers req);
          cookies = parse_cookies (headers ''cookie'')
      in \<lparr>req_method = toUpperCase (if truthy_str (im_method req) then the (im_method req) else ''GET''),
          req_path = url_pathname url,
          req_query = query,
          req_headers = headers,
          req_cookies = cookies\<rparr>)"

subsection \<open>Selecting scenarios\<close>

record match_block =
  match_query :: "(string \<times> string) list option"
  match_headers :: "(string \<times> string) list option"

record selector =
  when_operationId :: "string option"
  when_method :: "string option"
  when_path :: "string option"
  when_match :: "match_block option"
  when_negate :: "bool option"

record operation =
  op_operationId :: string
  op_method :: string
  op_path :: string

record request_context =
  ctx_query :: "string \<rightharpoonup> string"
  ctx_headers :: "string \<rightharpoonup> string"

text \<open>
  \<open>Router.valueMatches\<close>.  The regular-expression engine is a parameter \<open>rx\<close>:
  \<open>rx pattern s\<close> is \<open>None\<close> when \<open>new RegExp(pattern)\<close> throws, and otherwise the
  result of testing \<open>s\<close>.
\<close>

type_synonym regex_engine = "string \<Rightarrow> string \<Rightarrow> bool option"

definition valueMatches :: "regex_engine \<Rightarrow> string option \<Rightarrow> string \<Rightarrow> bool" where
  "valueMatches rx actual expected =
     (case actual of
        None \<Rightarrow> False
      | Some a \<Rightarrow>
          if take 7 expected = ''$regex:''
          then (case rx (trim (drop 7 expected)) a of None \<Rightarrow> False | Some b \<Rightarrow> b)
          else a = expected)"

text \<open>The two loops over the expected entries; a failing entry sets \<open>matches\<close> to false and breaks.\<close>

fun query_loop ::
  "regex_engine \<Rightarrow> (string \<rightharpoonup> string) \<Rightarrow> (string \<times> string) list \<Rightarrow> bool \<Rightarrow> bool" where
  "query_loop rx query [] matches = matches"
| "query_loop rx query ((key, expectedValue) # rest) matches =
     (if \<not> valueMatches rx (query key) expectedValue then False
      else query_loop rx query rest matches)"

fun headers_loop ::
  "regex_engine \<Rightarrow> (string \<rightharpoonup> string) \<Rightarrow> (string \<times> string) list \<Rightarrow> bool \<Rightarrow> bool" where
  "headers_loop rx headers [] matches = matches"
| "headers_loop rx headers ((key, expectedValue) # rest) matches =
     (if \<not> valueMatches rx (headers (toLowerCase key)) expectedValue then False
      else headers_loop rx headers rest matches)"

text \<open>\<open>Router.scenarioMatches\<close>; the operation check yields \<open>None\<close> for an invalid selector.\<close>

definition operation_check :: "selector \<Rightarrow> operation \<Rightarrow> bool option" where
  "operation_check w op =
     (if truthy_str (when_operationId w)
      then Some (the (when_operationId w) = op_operationId op)
      else if truthy_str (when_method w) \<and> truthy_str (when_path w)
      then Some (toUpperCase (the (when_method w)) = op_method op
                 \<and> the (when_path w) = op_path op)
      else None)"

definition scenarioMatches ::
  "regex_engine \<Rightarrow> selector \<Rightarrow> operation \<Rightarrow> request_context \<Rightarrow> bool" where
  "scenarioMatches rx w op requestContext =
     (case operation_check w op of
        None \<Rightarrow> False
      | Some matches \<Rightarrow>
          if \<not> matches then False
          else
            let matches1 =
                  (case when_match w of
                     None \<Rightarrow> matches
                   | Some m \<Rightarrow>
                       let mq = (case match_query m of
                                   None \<Rightarrow> matches
                                 | Some q \<Rightarrow> query_loop rx (ctx_query requestContext) q matches);
                           mh = (case match_headers m of
                                   None \<Rightarrow> mq
                                 | Some h \<Rightarrow>
                                     if mq then headers_loop rx (ctx_headers requestContext) h mq
                                     else mq)
                       in mh)
            in if when_negate w = Some True then \<not> matches1 else matches1)"

text \<open>
  The two halves of a selector as the rule language describes them: the operation selector
  (\<open>operationId\<close> exact, or method and path exact), and the optional query and header
  conditions, all of which have to hold.
\<close>

definition selector_matches_operation :: "selector \<Rightarrow> operation \<Rightarrow> bool" where
  "selector_matches_operation w op =
     (if truthy_str (when_operationId w)
      then the (when_operationId w) = op_operationId op
      else truthy_str (when_method w) \<and> truthy_str (when_path w)
           \<and> toUpperCase (the (when_method w)) = op_method op
           \<and> the (when_path w) = op_path op)"

definition conditions_match :: "regex_engine \<Rightarrow> selector \<Rightarrow> request_context \<Rightarrow> bool" where
  "conditions_match rx w requestContext =
     (case when_match w of
        None \<Rightarrow> True
      | Some m \<Rightarrow>
          list_all (\<lambda>(key, e). valueMatches rx (ctx_query requestContext key) e)
                   (case match_query m of None \<Rightarrow> [] | Some q \<Rightarrow> q)
          \<and> list_all (\<lambda>(key, e). valueMatches rx (ctx_headers requestContext (toLowerCase key)) e)
                   (case match_headers m of None \<Rightarrow> [] | Some h \<Rightarrow> h))"

text \<open>Concrete inputs used below.\<close>

definition no_regex :: regex_engine where
  "no_regex pattern s = None"

definition url_repeated :: parsed_url where
  "url_repeated = \<lparr>url_pathname = ''/pets'', url_searchParams = [(''tag'', ''cat''), (''tag'', ''dog'')]\<rparr>"

definition msg_plain :: incoming_message where
  "msg_plain = \<lparr>im_method = Some ''get'', im_headers = [(''Accept'', HStr ''*/*'')]\<rparr>"

definition op_listPets :: operation where
  "op_listPets = \<lparr>op_operationId = ''listPets'', op_method = ''GET'', op_path = ''/pets''\<rparr>"

definition sel_not_createPet :: selector where
  "sel_not_createPet =
     \<lparr>when_operationId = Some ''createPet'', when_method = None, when_path = None,
      when_match = None, when_negate = Some True\<rparr>"

definition sel_listPets_not_debug :: selector where
  "sel_listPets_not_debug =
     \<lparr>when_operationId = Some ''listPets'', when_method = None, when_path = None,
      when_match = Some \<lparr>match_query = Some [(''debug'', ''1'')], match_headers = None\<rparr>,
      when_negate = Some True\<rparr>"

definition ctx_empty :: request_context where
  "ctx_empty = \<lparr>ctx_query = Map.empty, ctx_headers = Map.empty\<rparr>"

section \<open>Request pipeline: session resolution and state keys (sandbox.js)\<close>

text \<open>
  The parsed request carries its headers and cookies as JavaScript objects with string
  values; a property that is not there reads as \<open>undefined\<close>.
\<close>

text \<open>\<open>Sandbox.extractSessionId\<close>: header, then cookie, then Authorization, then the fallback.\<close>

definition extractSessionId :: "sandbox_request \<Rightarrow> string" where
  "extractSessionId req =
     (let sessionHeader = req_headers req ''x-sandbox-session'' in
      if truthy_str sessionHeader then the sessionHeader
      else let sessionCookie = req_cookies req ''sandbox_session'' in
      if truthy_str sessionCookie then the sessionCookie
      else let authHeader = req_headers req ''authorization'' in
      if truthy_str authHeader then the authHeader
      else ''GLOBAL'')"

text \<open>\<open>Sandbox.buildStateKey\<close>.\<close>

definition buildStateKey :: "string \<Rightarrow> string \<Rightarrow> string \<Rightarrow> string" where
  "buildStateKey key sessionId scope =
     (if scope = ''global'' then ''global:'' @ key
      else ''session:'' @ sessionId @ '':'' @ key)"

text \<open>
  Every method of the state API built by \<open>Sandbox.createContext\<close> computes its store key
  as \<open>buildStateKey(key, sessionId, options?.scope || 'session')\<close>, with the session id
  extracted once from the request.
\<close>

definition scope_or_default :: "string option \<Rightarrow> string" where
  "scope_or_default scope = (if truthy_str scope then the scope else ''session'')"

definition state_fullKey :: "sandbox_request \<Rightarrow> string \<Rightarrow> string option \<Rightarrow> string" where
  "state_fullKey req key scope =
     buildStateKey key (extractSessionId req) (scope_or_default scope)"

text \<open>
  The session context of \<open>createContext\<close>: the id, and the scope tag derived from it.
\<close>

definition session_scope :: "sandbox_request \<Rightarrow> string" where
  "session_scope req = (if extractSessionId req = ''GLOBAL'' then ''global'' else ''session'')"

text \<open>
  The ways a request can supply a session identifier \<open>sid\<close> itself: in the header; in the
  cookie when the header is absent or empty; in the Authorization header when both are.
\<close>

definition supplies_session :: "sandbox_request \<Rightarrow> string \<Rightarrow> bool" where
  "supplies_session req sid =
     (req_headers req ''x-sandbox-session'' = Some sid
      \<or> (\<not> truthy_str (req_headers req ''x-sandbox-session'')
          \<and> req_cookies req ''sandbox_session'' = Some sid)
      \<or> (\<not> truthy_str (req_headers req ''x-sandbox-session'')
          \<and> \<not> truthy_str (req_cookies req ''sandbox_session'')
          \<and> req_headers req ''authorization'' = Some sid))"

definition no_credentials :: "sandbox_request \<Rightarrow> bool" where
  "no_credentials req =
     (\<not> truthy_str (req_headers req ''x-sandbox-session'')
      \<and> \<not> truthy_str (req_cookies req ''sandbox_session'')
      \<and> \<not> truthy_str (req_headers req ''authorization''))"

definition req_global_header :: sandbox_request where
  "req_global_header =
     \<lparr>req_method = ''GET'', req_path = ''/pets'', req_query = Map.empty,
      req_headers = [''x-sandbox-session'' \<mapsto> ''GLOBAL''], req_cookies = Map.empty\<rparr>"

definition req_anonymous :: sandbox_request where
  "req_anonymous =
     \<lparr>req_method = ''GET'', req_path = ''/pets'', req_query = Map.empty,
      req_headers = Map.empty, req_cookies = Map.empty\<rparr>"

section \<open>Document loader (loader.ts)\<close>

text \<open>
  A parameter descriptor of the OpenAPI document, and an entry of a \<open>parameters\<close> array:
  a descriptor, or an object that still carries \<open>$ref\<close>.
\<close>

record parameter =
  param_name :: string
  param_in :: string
  param_required :: bool
  param_schema :: jsval

datatype param_entry = ParamObj parameter | ParamRef string

text \<open>
  The block of \<open>OpenAPILoader.extractOperations\<close> that collects the parameters of one
  operation: the path-level entries that are not references are pushed first, then the
  operation-level ones.  Either array may be missing.
\<close>

fun push_params :: "param_entry list \<Rightarrow> parameter list \<Rightarrow> parameter list" where
  "push_params [] parameters = parameters"
| "push_params (ParamObj p # rest) parameters = push_params rest (parameters @ [p])"
| "push_params (ParamRef r # rest) parameters = push_params rest parameters"

definition collect_parameters ::
  "param_entry list option \<Rightarrow> param_entry list option \<Rightarrow> parameter list" where
  "collect_parameters pathItem_parameters operation_parameters =
     (let parameters = [];
          parameters = (case pathItem_parameters of
                          None \<Rightarrow> parameters | Some ps \<Rightarrow> push_params ps parameters);
          parameters = (case operation_parameters of
                          None \<Rightarrow> parameters | Some ps \<Rightarrow> push_params ps parameters)
      in parameters)"

text \<open>The descriptors among the entries of an optional array, in order.\<close>

fun descriptors :: "param_entry list \<Rightarrow> parameter list" where
  "descriptors [] = []"
| "descriptors (ParamObj p # rest) = p # descriptors rest"
| "descriptors (ParamRef r # rest) = descriptors rest"

definition descriptors_of :: "param_entry list option \<Rightarrow> parameter list" where
  "descriptors_of ps = (case ps of None \<Rightarrow> [] | Some xs \<Rightarrow> descriptors xs)"

definition named :: "string \<Rightarrow> parameter list \<Rightarrow> parameter list" where
  "named n ps = filter (\<lambda>p. param_name p = n) ps"

definition limit_path_level :: parameter where
  "limit_path_level =
     \<lparr>param_name = ''limit'', param_in = ''query'', param_required = True, param_schema = JNull\<rparr>"

definition limit_operation_level :: parameter where
  "limit_operation_level =
     \<lparr>param_name = ''limit'', param_in = ''query'', param_required = False, param_schema = JNull\<rparr>"

section \<open>State stores\<close>

text \<open>
  A JavaScript \<open>Map\<close> keeps its keys in insertion order; setting a key that is there
  keeps its place, a new key goes to the end.  It is modelled as an association list with
  \<^const>\<open>AList.update\<close>, \<^const>\<open>AList.delete\<close> and \<^const>\<open>map_of\<close>.  Every store operation
  takes the reading \<open>now\<close> of the wall clock (\<open>Date.now()\<close>, milliseconds) during the call.
\<close>

datatype store_error = NotInitialized | NotSerializable | NoWheelSlot

text \<open>
  \<open>serialize\<close> is the JSON round trip \<open>JSON.parse(JSON.stringify(value))\<close>: the identity
  on a JSON value; on \<open>undefined\<close> the parse throws.
\<close>

definition serialize :: "jsval option \<Rightarrow> store_error + jsval" where
  "serialize v = (case v of None \<Rightarrow> Inl NotSerializable | Some j \<Rightarrow> Inr j)"

text \<open>An optional expiry is in force when it is there and not zero (\<open>entry.expiresAt && \<dots>\<close>).\<close>

definition is_expired :: "int option \<Rightarrow> int \<Rightarrow> bool" where
  "is_expired expiresAt now = (case expiresAt of None \<Rightarrow> False | Some e \<Rightarrow> e \<noteq> 0 \<and> e \<le> now)"

definition or_undefined :: "int option \<Rightarrow> int option" where
  "or_undefined x = (case x of None \<Rightarrow> None | Some e \<Rightarrow> if e = 0 then None else Some e)"

subsection \<open>The merge of \<open>patch\<close>\<close>

text \<open>
  The object spread \<open>{ ...existing, ...value }\<close> copies the entries of \<open>existing\<close> and
  then those of \<open>value\<close> into a fresh object.
\<close>

definition spread_into :: "(string \<times> jsval) list \<Rightarrow> (string \<times> jsval) list \<Rightarrow> (string \<times> jsval) list" where
  "spread_into acc obj = fold (\<lambda>(k, v) a. AList.update k v a) obj acc"

text \<open>
  The branches of \<open>patch\<close> once an existing value was read: two objects that are not
  arrays are spread, two arrays are concatenated, anything else is replaced.  The incoming
  value may be \<open>undefined\<close>.
\<close>

fun merge_existing :: "jsval \<Rightarrow> jsval option \<Rightarrow> jsval option" where
  "merge_existing (JObj existing) (Some (JObj v)) = Some (JObj (spread_into (spread_into [] existing) v))"
| "merge_existing (JArr existing) (Some (JArr v)) = Some (JArr (existing @ v))"
| "merge_existing existing v = v"

subsection \<open>In-memory store (memory.js)\<close>

record mem_entry =
  me_value :: jsval
  me_expiresAt :: "int option"

record memory_store =
  ms_cache :: "(string \<times> mem_entry) list"
  ms_maxSize :: nat
  ms_defaultTtl :: "int option"
  ms_wheel :: "nat \<Rightarrow> (string \<times> mem_entry) list"
  ms_lastCleanup :: int

definition wheelSize :: nat where
  "wheelSize = 3600"

text \<open>
  The constructor: \<open>options.maxSize || 10000\<close>, \<open>options.defaultTtl || undefined\<close>, empty
  wheel slots, and \<open>lastCleanup\<close> the second of construction.  It also starts the timer
  that calls \<open>cleanup\<close> every second.
\<close>

definition new_MemoryStore :: "nat option \<Rightarrow> int option \<Rightarrow> int \<Rightarrow> memory_store" where
  "new_MemoryStore maxSize defaultTtl now =
     \<lparr>ms_cache = [],
      ms_maxSize = (case maxSize of None \<Rightarrow> 10000 | Some n \<Rightarrow> if n = 0 then 10000 else n),
      ms_defaultTtl = or_undefined defaultTtl,
      ms_wheel = (\<lambda>slot. []),
      ms_lastCleanup = now div 1000\<rparr>"

text \<open>\<open>MemoryStore.get\<close>: the lazy expiry check deletes an expired entry from the map.\<close>

definition mem_get :: "string \<Rightarrow> int \<Rightarrow> memory_store \<Rightarrow> jsval option \<times> memory_store" where
  "mem_get key now st =
     (case map_of (ms_cache st) key of
        None \<Rightarrow> (None, st)
      | Some entry \<Rightarrow>
          if is_expired (me_expiresAt entry) now
          then (None, st\<lparr>ms_cache := AList.delete key (ms_cache st)\<rparr>)
          else (Some (me_value entry), st))"

text \<open>\<open>evictOldest\<close> removes the first key of the map, unless that key is falsy (the empty string).\<close>

definition evictOldest :: "memory_store \<Rightarrow> memory_store" where
  "evictOldest st =
     (case ms_cache st of
        [] \<Rightarrow> st
      | (firstKey, e) # rest \<Rightarrow>
          if firstKey \<noteq> [] then st\<lparr>ms_cache := AList.delete firstKey (ms_cache st)\<rparr> else st)"

text \<open>
  \<open>scheduleExpiration\<close>: the slot is \<open>expirationTime % wheelSize\<close> with JavaScript's
  truncated remainder; a negative index finds no slot and the property access throws.
\<close>

definition scheduleExpiration ::
  "string \<Rightarrow> mem_entry \<Rightarrow> int \<Rightarrow> memory_store \<Rightarrow> store_error option \<times> memory_store" where
  "scheduleExpiration key entry expirationTime st =
     (if expirationTime < 0 \<and> (- expirationTime) mod int wheelSize \<noteq> 0
      then (Some NoWheelSlot, st)
      else let slot = nat (\<bar>expirationTime\<bar> mod int wheelSize)
           in (None, st\<lparr>ms_wheel := (ms_wheel st)(slot := AList.update key entry (ms_wheel st slot))\<rparr>))"

text \<open>\<open>MemoryStore.set\<close>; \<open>ttl ?? defaultTtl\<close> takes the default only when \<open>ttl\<close> is undefined.\<close>

definition mem_set ::
  "string \<Rightarrow> jsval option \<Rightarrow> int option \<Rightarrow> int \<Rightarrow> memory_store \<Rightarrow> store_error option \<times> memory_store" where
  "mem_set key v ttl now st =
     (let st1 = (if length (ms_cache st) \<ge> ms_maxSize st \<and> map_of (ms_cache st) key = None
                 then evictOldest st else st);
          effectiveTtl = (case ttl of None \<Rightarrow> ms_defaultTtl st1 | Some t \<Rightarrow> Some t);
          expiresAt = (case effectiveTtl of
                         None \<Rightarrow> None
                       | Some t \<Rightarrow> if t \<noteq> 0 then Some (now + t * 1000) else None)
      in case serialize v of
           Inl err \<Rightarrow> (Some err, st1)
         | Inr sv \<Rightarrow>
             let entry = \<lparr>me_value = sv, me_expiresAt = or_undefined expiresAt\<rparr>;
                 st2 = st1\<lparr>ms_cache := AList.update key entry (ms_cache st1)\<rparr>
             in case or_undefined expiresAt of
                  None \<Rightarrow> (None, st2)
                | Some e \<Rightarrow> scheduleExpiration key entry (e div 1000) st2)"

text \<open>
  \<open>cleanup\<close>, run by the timer: every second from the last one swept up to the current
  one has its wheel slot processed; an entry of the slot whose expiry has passed has its
  key deleted from the cache and is taken out of the slot.  (Seconds count from the epoch
  and are not negative.)
\<close>

definition sweep_slot :: "int \<Rightarrow> nat \<Rightarrow> memory_store \<Rightarrow> memory_store" where
  "sweep_slot now slot st =
     (let slotEntries = ms_wheel st slot;
          expiredKeys = map fst (filter (\<lambda>(key, entry). is_expired (me_expiresAt entry) now) slotEntries)
      in st\<lparr>ms_cache := fold AList.delete expiredKeys (ms_cache st),
            ms_wheel := (ms_wheel st)(slot := fold AList.delete expiredKeys slotEntries)\<rparr>)"

function cleanup_from :: "int \<Rightarrow> int \<Rightarrow> int \<Rightarrow> memory_store \<Rightarrow> memory_store" where
  "cleanup_from lastCleanup nowSeconds now st =
     (if lastCleanup < nowSeconds
      then cleanup_from (lastCleanup + 1) nowSeconds now
             (sweep_slot now (nat ((lastCleanup + 1) mod int wheelSize)) st)
      else st\<lparr>ms_lastCleanup := lastCleanup\<rparr>)"
  by pat_completeness auto
termination
  by (relation "measure (\<lambda>(lastCleanup, nowSeconds, now, st). nat (nowSeconds - lastCleanup))") auto

declare cleanup_from.simps [simp del]

definition cleanup :: "int \<Rightarrow> memory_store \<Rightarrow> memory_store" where
  "cleanup now st = cleanup_from (ms_lastCleanup st) (now div 1000) now st"

definition mem_del :: "string \<Rightarrow> memory_store \<Rightarrow> memory_store" where
  "mem_del key st = st\<lparr>ms_cache := AList.delete key (ms_cache st)\<rparr>"

text \<open>The remaining time-to-live in whole seconds that \<open>increment\<close> and \<open>patch\<close> pass on to \<open>set\<close>.\<close>

definition remaining_ttl :: "(string \<times> mem_entry) list \<Rightarrow> string \<Rightarrow> int \<Rightarrow> int option" where
  "remaining_ttl cache key now =
     (case map_of cache key of
        None \<Rightarrow> None
      | Some existingEntry \<Rightarrow>
          (case or_undefined (me_expiresAt existingEntry) of
             None \<Rightarrow> None
           | Some e \<Rightarrow> Some (max 0 ((e - now) div 1000))))"

definition mem_increment ::
  "string \<Rightarrow> int \<Rightarrow> int \<Rightarrow> memory_store \<Rightarrow> (store_error + int) \<times> memory_store" where
  "mem_increment key by now st =
     (let (current, st1) = mem_get key now st;
          currentValue = (case current of Some (JNum n) \<Rightarrow> n | _ \<Rightarrow> 0);
          newValue = currentValue + by;
          ttl = remaining_ttl (ms_cache st1) key now
      in case mem_set key (Some (JNum newValue)) ttl now st1 of
           (Some err, st2) \<Rightarrow> (Inl err, st2)
         | (None, st2) \<Rightarrow> (Inr newValue, st2))"

text \<open>\<open>MemoryStore.patch\<close>.\<close>

definition mem_patch ::
  "string \<Rightarrow> jsval option \<Rightarrow> int \<Rightarrow> memory_store \<Rightarrow> store_error option \<times> memory_store" where
  "mem_patch key v now st =
     (let (existing, st1) = mem_get key now st
      in case existing of
           None \<Rightarrow> mem_set key v None now st1
         | Some ex \<Rightarrow>
             let mergedValue = merge_existing ex v;
                 ttl = remaining_ttl (ms_cache st1) key now
             in mem_set key mergedValue ttl now st1)"

subsection \<open>Append-log file store (file.ts)\<close>

record file_entry =
  fe_value :: jsval
  fe_expiresAt :: "int option"
  fe_createdAt :: int
  fe_updatedAt :: int

datatype log_operation = OpSet | OpDel | OpIncrement | OpPatch

record log_entry =
  le_timestamp :: int
  le_operation :: log_operation
  le_key :: string
  le_value :: "jsval option"
  le_ttl :: "int option"

text \<open>
  The store: the in-process cache, the two flags, and the two files on disk, the append
  log as the list of records written so far and the snapshot as its list of lines.
\<close>

record file_store =
  fs_cache :: "(string \<times> file_entry) list"
  fs_isInitialized :: bool
  fs_logFileHandle :: bool
  fs_log :: "log_entry list"
  fs_snapshot :: "(string \<times> file_entry) list"

text \<open>\<open>appendLog\<close>: without a file handle nothing is written; otherwise one line, then a sync.\<close>

definition appendLog :: "log_entry \<Rightarrow> file_store \<Rightarrow> file_store" where
  "appendLog entry st =
     (if \<not> fs_logFileHandle st then st else st\<lparr>fs_log := fs_log st @ [entry]\<rparr>)"

text \<open>\<open>FileStore.get\<close>.\<close>

definition file_get ::
  "string \<Rightarrow> int \<Rightarrow> file_store \<Rightarrow> (store_error + jsval option) \<times> file_store" where
  "file_get key now st =
     (if \<not> fs_isInitialized st then (Inl NotInitialized, st)
      else case map_of (fs_cache st) key of
             None \<Rightarrow> (Inr None, st)
           | Some entry \<Rightarrow>
               if is_expired (fe_expiresAt entry) now
               then (Inr None,
                     appendLog \<lparr>le_timestamp = now, le_operation = OpDel, le_key = key,
                                le_value = None, le_ttl = None\<rparr>
                               (st\<lparr>fs_cache := AList.delete key (fs_cache st)\<rparr>))
               else (Inr (Some (fe_value entry)), st))"

text \<open>\<open>existingEntry?.createdAt || now\<close>.\<close>

definition createdAt_or :: "file_entry option \<Rightarrow> int \<Rightarrow> int" where
  "createdAt_or existingEntry now =
     (case existingEntry of
        None \<Rightarrow> now
      | Some e \<Rightarrow> if fe_createdAt e \<noteq> 0 then fe_createdAt e else now)"

definition expiresAt_of :: "file_entry option \<Rightarrow> int option" where
  "expiresAt_of existingEntry =
     (case existingEntry of None \<Rightarrow> None | Some e \<Rightarrow> or_undefined (fe_expiresAt e))"

text \<open>\<open>FileStore.set\<close>.\<close>

definition file_set ::
  "string \<Rightarrow> jsval option \<Rightarrow> int option \<Rightarrow> int \<Rightarrow> file_store \<Rightarrow> store_error option \<times> file_store" where
  "file_set key v ttl now st =
     (if \<not> fs_isInitialized st then (Some NotInitialized, st)
      else
        let expiresAt = (case or_undefined ttl of None \<Rightarrow> None | Some t \<Rightarrow> Some (now + t * 1000))
        in case serialize v of
             Inl err \<Rightarrow> (Some err, st)
           | Inr sv \<Rightarrow>
               let entry = \<lparr>fe_value = sv, fe_expiresAt = or_undefined expiresAt,
                            fe_createdAt = createdAt_or (map_of (fs_cache st) key) now,
                            fe_updatedAt = now\<rparr>;
                   st1 = st\<lparr>fs_cache := AList.update key entry (fs_cache st)\<rparr>
               in (None,
                   appendLog \<lparr>le_timestamp = now, le_operation = OpSet, le_key = key,
                              le_value = Some sv, le_ttl = or_undefined ttl\<rparr> st1))"

text \<open>\<open>FileStore.del\<close>.\<close>

definition file_del :: "string \<Rightarrow> int \<Rightarrow> file_store \<Rightarrow> store_error option \<times> file_store" where
  "file_del key now st =
     (if \<not> fs_isInitialized st then (Some NotInitialized, st)
      else (None,
            appendLog \<lparr>le_timestamp = now, le_operation = OpDel, le_key = key,
                       le_value = None, le_ttl = None\<rparr>
                      (st\<lparr>fs_cache := AList.delete key (fs_cache st)\<rparr>)))"

text \<open>\<open>FileStore.increment\<close>.\<close>

definition file_increment ::
  "string \<Rightarrow> int \<Rightarrow> int \<Rightarrow> file_store \<Rightarrow> (store_error + int) \<times> file_store" where
  "file_increment key by now st =
     (if \<not> fs_isInitialized st then (Inl NotInitialized, st)
      else case file_get key now st of
             (Inl err, st1) \<Rightarrow> (Inl err, st1)
           | (Inr current, st1) \<Rightarrow>
               let currentValue = (case current of Some (JNum n) \<Rightarrow> n | _ \<Rightarrow> 0);
                   newValue = currentValue + by;
                   existingEntry = map_of (fs_cache st1) key;
                   entry = \<lparr>fe_value = JNum newValue, fe_expiresAt = expiresAt_of existingEntry,
                            fe_createdAt = createdAt_or existingEntry now, fe_updatedAt = now\<rparr>;
                   st2 = st1\<lparr>fs_cache := AList.update key entry (fs_cache st1)\<rparr>
               in (Inr newValue,
                   appendLog \<lparr>le_timestamp = now, le_operation = OpIncrement, le_key = key,
                              le_value = Some (JNum by), le_ttl = None\<rparr> st2))"

text \<open>
  \<open>FileStore.patch\<close>.  With no existing value the incoming one is taken as it is; the
  merged value is serialized before the cache is written, the incoming one before the log
  record is.
\<close>

definition file_patch ::
  "string \<Rightarrow> jsval option \<Rightarrow> int \<Rightarrow> file_store \<Rightarrow> store_error option \<times> file_store" where
  "file_patch key v now st =
     (if \<not> fs_isInitialized st then (Some NotInitialized, st)
      else case file_get key now st of
             (Inl err, st1) \<Rightarrow> (Some err, st1)
           | (Inr existing, st1) \<Rightarrow>
               let mergedValue = (case existing of None \<Rightarrow> v | Some ex \<Rightarrow> merge_existing ex v);
                   existingEntry = map_of (fs_cache st1) key
               in case serialize mergedValue of
                    Inl err \<Rightarrow> (Some err, st1)
                  | Inr sv \<Rightarrow>
                      let entry = \<lparr>fe_value = sv, fe_expiresAt = expiresAt_of existingEntry,
                                   fe_createdAt = createdAt_or existingEntry now,
                                   fe_updatedAt = now\<rparr>;
                          st2 = st1\<lparr>fs_cache := AList.update key entry (fs_cache st1)\<rparr>
                      in case serialize v of
                           Inl err \<Rightarrow> (Some err, st2)
                         | Inr lv \<Rightarrow>
                             (None,
                              appendLog \<lparr>le_timestamp = now, le_operation = OpPatch, le_key = key,
                                         le_value = Some lv, le_ttl = None\<rparr> st2))"

text \<open>Concrete stores and values used below.\<close>

definition obj_a :: jsval where
  "obj_a = JObj [(''a'', JNum 1)]"

definition obj_b :: jsval where
  "obj_b = JObj [(''b'', JNum 2)]"

definition store_expired :: file_store where
  "store_expired =
     \<lparr>fs_cache = [(''k'', \<lparr>fe_value = JNum 7, fe_expiresAt = Some 1000,
                            fe_createdAt = 1, fe_updatedAt = 1\<rparr>)],
      fs_isInitialized = True, fs_logFileHandle = True, fs_log = [], fs_snapshot = []\<rparr>"

definition store_fresh :: file_store where
  "store_fresh =
     \<lparr>fs_cache = [], fs_isInitialized = True, fs_logFileHandle = True,
      fs_log = [], fs_snapshot = []\<rparr>"

text \<open>A read finds an expired entry: the key is in the cache and its expiry has passed.\<close>

definition finds_expired :: "file_store \<Rightarrow> string \<Rightarrow> int \<Rightarrow> bool" where
  "finds_expired st key now =
     (case map_of (fs_cache st) key of
        None \<Rightarrow> False
      | Some entry \<Rightarrow> is_expired (fe_expiresAt entry) now)"

definition del_record :: "string \<Rightarrow> int \<Rightarrow> log_entry" where
  "del_record key now =
     \<lparr>le_timestamp = now, le_operation = OpDel, le_key = key, le_value = None, le_ttl = None\<rparr>"

text \<open>The expiry that \<open>set\<close> stores for a time-to-live argument.\<close>

definition set_expiry :: "memory_store \<Rightarrow> int option \<Rightarrow> int \<Rightarrow> int option" where
  "set_expiry st ttl now =
     or_undefined (case (case ttl of None \<Rightarrow> ms_defaultTtl st | Some t \<Rightarrow> Some t) of
                     None \<Rightarrow> None
                   | Some t \<Rightarrow> if t \<noteq> 0 then Some (now + t * 1000) else None)"

section \<open>Template engine (template.ts)\<close>

subsection \<open>The machine the engine runs on\<close>

text \<open>
  What an evaluation can read and change outside its arguments: the wall clock, the state
  \<open>a\<close> of the engine's seeded generator, the platform's source of version-4 UUIDs
  (the \<open>uuid\<close> package), given as the sequence of identifiers it will hand out, and the
  \<open>Date\<close> objects of the template contexts.  A \<open>Date\<close> is a mutable object (\<open>setTime\<close>
  and the like change its time value), and an expression is handed the object itself: the
  machine holds the time value of every such object under its address.
\<close>

record machine =
  m_clock :: int
  m_rng :: "32 word"
  m_uuid_source :: "nat \<Rightarrow> string"
  m_uuid_count :: nat
  m_dates :: "nat \<Rightarrow> int"
  m_date_count :: nat

text \<open>
  The context handed to \<open>render\<close> and \<open>evaluate\<close>, and the one \<open>createContext\<close> builds
  from it.  The request, session and state parts are taken as values: what an expression
  does to those objects is not followed.
\<close>

record render_context =
  rc_req :: "jsval option"
  rc_session :: "jsval option"
  rc_state :: "jsval option"

record template_context =
  tc_req :: jsval
  tc_session :: jsval
  tc_state :: jsval
  tc_now :: nat

fun falsy :: "jsval \<Rightarrow> bool" where
  "falsy JNull = True"
| "falsy (JBool b) = (\<not> b)"
| "falsy (JNum n) = (n = 0)"
| "falsy (JStr s) = (s = [])"
| "falsy v = False"

definition or_empty_object :: "jsval option \<Rightarrow> jsval" where
  "or_empty_object v = (case v of None \<Rightarrow> JObj [] | Some j \<Rightarrow> if falsy j then JObj [] else j)"

text \<open>
  \<open>createContext\<close>: \<open>fixedNow = new Date()\<close> makes a new \<open>Date\<close> object from the
  reading of the clock, and the context holds that object (its address) as \<open>now\<close>; the
  functions \<open>uuid\<close>, \<open>rand\<close> and \<open>faker.*\<close> it binds are modelled further down as
  calls on the machine.  \<open>now_of ctx m\<close> is the time value that the object of the context
  shows on the machine \<open>m\<close>, what \<open>now.getTime()\<close> returns there.
\<close>

definition createContext :: "render_context \<Rightarrow> machine \<Rightarrow> template_context \<times> machine" where
  "createContext context m =
     (let fixedNow = m_date_count m
      in (\<lparr>tc_req = or_empty_object (rc_req context),
           tc_session = or_empty_object (rc_session context),
           tc_state = or_empty_object (rc_state context),
           tc_now = fixedNow\<rparr>,
          m\<lparr>m_dates := (m_dates m)(fixedNow := m_clock m),
            m_date_count := Suc (m_date_count m)\<rparr>))"

definition now_of :: "template_context \<Rightarrow> machine \<Rightarrow> int" where
  "now_of ctx m = m_dates m (tc_now ctx)"

subsection \<open>String forms\<close>

definition digit_char :: "nat \<Rightarrow> char" where
  "digit_char d = ''0123456789'' ! d"

fun show_nat :: "nat \<Rightarrow> string" where
  "show_nat n = (if n < 10 then [digit_char n] else show_nat (n div 10) @ [digit_char (n mod 10)])"

declare show_nat.simps [simp del]

definition show_int :: "int \<Rightarrow> string" where
  "show_int i = (if i < 0 then CHR ''-'' # show_nat (nat (- i)) else show_nat (nat i))"

text \<open>\<open>String(value)\<close> on a JSON value; an array joins its elements, \<open>null\<close> among them as nothing.\<close>

fun js_String :: "jsval \<Rightarrow> string" where
  "js_String JNull = ''null''"
| "js_String (JBool b) = (if b then ''true'' else ''false'')"
| "js_String (JNum n) = show_int n"
| "js_String (JStr s) = s"
| "js_String (JArr xs) = join_with '','' (map (\<lambda>x. if x = JNull then [] else js_String x) xs)"
| "js_String (JObj kvs) = ''[object Object]''"

subsection \<open>The placeholder pattern\<close>

text \<open>
  \<open>TEMPLATE_REGEX\<close> is \<^verbatim>\<open>/\{\{\s*((?:[^{}]|\{[^}]*\})*)\s*\}\}/g\<close>.  After the opening
  braces and the white space, the group is a run of items: a character that is no brace,
  or an opening brace with everything up to the next closing brace.  Every character
  starts at most one kind of item and an item has one possible extent, so the greedy run is
  the only candidate: it ends at a closing brace, at an opening brace that is never closed,
  or at the end of the text, and the pattern matches when two closing braces follow.
  \<open>items inside s\<close> splits \<open>s\<close> into that run and the rest.
\<close>

fun items :: "bool \<Rightarrow> string \<Rightarrow> string \<times> string" where
  "items inside [] = ([], [])"
| "items False (c # cs) =
     (if c = CHR ''}'' then ([], c # cs)
      else if c = CHR ''{''
      then (if CHR ''}'' \<in> set cs then (let (a, r) = items True cs in (c # a, r)) else ([], c # cs))
      else (let (a, r) = items False cs in (c # a, r)))"
| "items True (c # cs) =
     (if c = CHR ''}'' then (let (a, r) = items False cs in (c # a, r))
      else (let (a, r) = items True cs in (c # a, r)))"

text \<open>A match at the head of the text: the matched text, the group, and what follows.\<close>

definition match_here :: "string \<Rightarrow> (string \<times> string \<times> string) option" where
  "match_here s =
     (case s of
        c1 # c2 # t \<Rightarrow>
          if c1 = CHR ''{'' \<and> c2 = CHR ''{''
          then (let ws = takeWhile js_space t;
                    (grp, r) = items False (dropWhile js_space t)
                in case r of
                     d1 # d2 # rest \<Rightarrow>
                       if d1 = CHR ''}'' \<and> d2 = CHR ''}''
                       then Some (''{{'' @ ws @ grp @ ''}}'', grp, rest)
                       else None
                   | _ \<Rightarrow> None)
          else None
      | _ \<Rightarrow> None)"

lemma items_decomp: "items b s = (a, r) \<Longrightarrow> s = a @ r"
  by (induction b s arbitrary: a r rule: items.induct) (auto split: if_splits prod.splits)

lemma match_here_decomp:
  assumes "match_here s = Some (mt, grp, rest)"
  shows "s = mt @ rest \<and> mt \<noteq> []"
proof -
  from assms obtain t where s: "s = CHR ''{'' # CHR ''{'' # t"
    by (auto simp: match_here_def split: list.splits if_splits)
  obtain g r where it: "items False (dropWhile js_space t) = (g, r)"
    by (cases "items False (dropWhile js_space t)")
  from assms s it have r: "r = CHR ''}'' # CHR ''}'' # rest" and g: "g = grp"
    and mt: "mt = ''{{'' @ takeWhile js_space t @ grp @ ''}}''"
    by (auto simp: match_here_def Let_def split: list.splits if_splits)
  from items_decomp [OF it] have "dropWhile js_space t = g @ r" .
  then have "t = takeWhile js_space t @ g @ r"
    by (metis takeWhile_dropWhile_id)
  then show ?thesis using s r g mt by simp
qed

lemma match_here_shorter: "match_here s = Some (mt, grp, rest) \<Longrightarrow> length rest < length s"
  using match_here_decomp [of s mt grp rest] by (cases mt) auto

text \<open>
  \<open>template.replace(TEMPLATE_REGEX, callback)\<close>: at each position a match is replaced by
  what the callback returns for it and the scan goes on after the match; a character where
  no match starts is copied.  The callbacks run left to right on the machine.
\<close>

function replace_all ::
  "(string \<Rightarrow> string \<Rightarrow> 's \<Rightarrow> string \<times> 's) \<Rightarrow> string \<Rightarrow> 's \<Rightarrow> string \<times> 's" where
  "replace_all cb [] m = ([], m)"
| "replace_all cb (c # cs) m =
     (case match_here (c # cs) of
        None \<Rightarrow> (let (out, m') = replace_all cb cs m in (c # out, m'))
      | Some (mt, grp, rest) \<Rightarrow>
          (let (piece, m1) = cb mt grp m;
               (out, m2) = replace_all cb rest m1
           in (piece @ out, m2)))"
  by pat_completeness auto
termination
  by (relation "measure (\<lambda>(cb, s, m). length s)") (auto dest: match_here_shorter)

subsection \<open>Evaluation\<close>

text \<open>
  The JavaScript engine that runs \<open>Function(...keys, "'use strict'; return (expr)")\<close> on
  the sandbox values is a parameter: it returns the value (\<open>None\<close> for \<open>undefined\<close>) or
  the message of what was thrown, and the machine as the evaluation left it.
\<close>

type_synonym evaluator =
  "template_context \<Rightarrow> string \<Rightarrow> machine \<Rightarrow> (string + jsval option) \<times> machine"

definition MAX_EXPRESSION_LENGTH :: nat where
  "MAX_EXPRESSION_LENGTH = 1000"

definition MAX_EXECUTION_TIME :: int where
  "MAX_EXECUTION_TIME = 100"

definition createSafeEvaluator ::
  "evaluator \<Rightarrow> template_context \<Rightarrow> string \<Rightarrow> machine \<Rightarrow> (string + jsval option) \<times> machine" where
  "createSafeEvaluator ev context expression m =
     (case ev context expression m of
        (Inl errorMessage, m') \<Rightarrow>
          (Inl (''Invalid expression: '' @ expression @ '' ('' @ errorMessage @ '')''), m')
      | (Inr result, m') \<Rightarrow> (Inr result, m'))"

definition evaluateWithContext ::
  "evaluator \<Rightarrow> string \<Rightarrow> template_context \<Rightarrow> machine \<Rightarrow> (string + jsval option) \<times> machine" where
  "evaluateWithContext ev expression templateContext m =
     (let startTime = m_clock m
      in case createSafeEvaluator ev templateContext expression m of
           (Inl errorMessage, m') \<Rightarrow> (Inl (''Template evaluation error: '' @ errorMessage), m')
         | (Inr result, m') \<Rightarrow>
             if m_clock m' - startTime > MAX_EXECUTION_TIME
             then (Inl (''Template evaluation error: '' @ ''Expression execution timeout''), m')
             else (Inr result, m'))"

text \<open>The callback of \<open>render\<close>, and \<open>render\<close> itself.\<close>

definition render_callback ::
  "evaluator \<Rightarrow> template_context \<Rightarrow> string \<Rightarrow> string \<Rightarrow> machine \<Rightarrow> string \<times> machine" where
  "render_callback ev templateContext match expression m =
     (case evaluateWithContext ev (trim expression) templateContext m of
        (Inr result, m') \<Rightarrow>
          ((case result of None \<Rightarrow> [] | Some JNull \<Rightarrow> [] | Some v \<Rightarrow> js_String v), m')
      | (Inl error, m') \<Rightarrow> (match, m'))"

definition render :: "evaluator \<Rightarrow> string \<Rightarrow> render_context \<Rightarrow> machine \<Rightarrow> string \<times> machine" where
  "render ev template context m =
     (let (templateContext, m1) = createContext context m
      in replace_all (render_callback ev templateContext) template m1)"

text \<open>
  \<open>containsDangerousCode\<close>.  A pattern \<^verbatim>\<open>/\bword\b/\<close> finds the word where no word
  character (letter, digit, underscore) stands directly before or after it; the pattern
  \<^verbatim>\<open>/\.\./\<close> finds two dots anywhere.
\<close>

datatype pattern = Word string | Literal string

definition word_char :: "char \<Rightarrow> bool" where
  "word_char c = (c \<in> set upper_letters \<or> c \<in> set lower_letters \<or> c \<in> set ''0123456789_'')"

definition word_here :: "string \<Rightarrow> string \<Rightarrow> bool" where
  "word_here w s =
     (take (length w) s = w
      \<and> (case drop (length w) s of [] \<Rightarrow> True | d # rest \<Rightarrow> \<not> word_char d))"

fun has_word :: "string \<Rightarrow> bool \<Rightarrow> string \<Rightarrow> bool" where
  "has_word w prev [] = False"
| "has_word w prev (c # cs) = ((\<not> prev \<and> word_here w (c # cs)) \<or> has_word w (word_char c) cs)"

fun has_literal :: "string \<Rightarrow> string \<Rightarrow> bool" where
  "has_literal l [] = (l = [])"
| "has_literal l (c # cs) = (take (length l) (c # cs) = l \<or> has_literal l cs)"

fun pattern_test :: "pattern \<Rightarrow> string \<Rightarrow> bool" where
  "pattern_test (Word w) s = has_word w False s"
| "pattern_test (Literal l) s = has_literal l s"

definition dangerousPatterns :: "pattern list" where
  "dangerousPatterns =
     [Word ''process'', Word ''window'', Word ''global'', Word ''require'', Word ''import'',
      Word ''eval'', Word ''Function'', Word ''constructor'', Word ''__proto__'',
      Word ''prototype'', Literal ''..'', Word ''setTimeout'', Word ''setInterval'',
      Word ''setImmediate'', Word ''Buffer'', Word ''fs'', Word ''path'', Word ''os'',
      Word ''child_process'', Word ''cluster'', Word ''dgram'', Word ''dns'', Word ''http'',
      Word ''https'', Word ''net'', Word ''tls'', Word ''url'', Word ''querystring'']"

definition containsDangerousCode :: "string \<Rightarrow> bool" where
  "containsDangerousCode expression = list_ex (\<lambda>p. pattern_test p expression) dangerousPatterns"

text \<open>\<open>evaluate\<close>: the two guards, then the context and the evaluation.\<close>

definition evaluate ::
  "evaluator \<Rightarrow> string \<Rightarrow> render_context \<Rightarrow> machine \<Rightarrow> (string + jsval option) \<times> machine" where
  "evaluate ev expression context m =
     (if length expression > MAX_EXPRESSION_LENGTH
      then (Inl (''Expression too long: '' @ show_nat (length expression) @ '' > ''
                 @ show_nat MAX_EXPRESSION_LENGTH), m)
      else if containsDangerousCode expression
      then (Inl ''Expression contains potentially dangerous code'', m)
      else let (templateContext, m1) = createContext context m
           in evaluateWithContext ev expression templateContext m1)"

subsection \<open>Seeded pseudo-randomness\<close>

text \<open>
  \<open>hashString\<close> folds the code units of the seed into a 32-bit integer
  (\<open>hash = ((hash << 5) - hash) + char\<close>, cut to 32 bits by \<open>hash & hash\<close>) and returns its
  absolute value; the generator of \<open>createSeededRng\<close> then updates its 32-bit state \<open>a\<close>
  with \<open>Math.imul\<close>, \<open>^\<close> and \<open>>>>\<close> and returns an unsigned 32-bit integer divided by
  \<open>2^32\<close>.  All of it is arithmetic of 32-bit words; \<open>mulberry32 a\<close> is the numerator of the
  number returned and the new state.
\<close>

definition hashString :: "string \<Rightarrow> 32 word" where
  "hashString str =
     (let hash = fold (\<lambda>c hash. (push_bit 5 hash - hash) + of_nat (of_char c)) str 0
      in if sint hash < 0 then - hash else hash)"

definition mulberry32 :: "32 word \<Rightarrow> 32 word \<times> 32 word" where
  "mulberry32 a0 =
     (let a = a0 + 0x6D2B79F5;
          t = (a XOR drop_bit 15 a) * (1 OR a);
          t = (t + (t XOR drop_bit 7 t) * (61 OR t)) XOR t
      in (t XOR drop_bit 14 t, a))"

definition createSeededRng :: "string \<Rightarrow> 32 word" where
  "createSeededRng seed = hashString seed"

text \<open>
  \<open>Math.floor(this.rng() * n)\<close> for an integer \<open>n\<close>: the product of the draw
  \<open>w / 2^32\<close> with \<open>n\<close> is exact in double precision for \<open>n\<close> below \<open>2^21\<close> in size, so
  the floor is the integer quotient.
\<close>

definition rng_floor :: "int \<Rightarrow> machine \<Rightarrow> int \<times> machine" where
  "rng_floor n m =
     (let (w, a) = mulberry32 (m_rng m)
      in ((uint w * n) div 4294967296, m\<lparr>m_rng := a\<rparr>))"

definition randomChoice :: "'a list \<Rightarrow> machine \<Rightarrow> 'a \<times> machine" where
  "randomChoice array m =
     (let (index, m') = rng_floor (int (length array)) m in (array ! nat index, m'))"


text \<open>The word lists of \<open>createFakerAPI\<close>.\<close>

definition names :: "string list" where
  "names = [''John'', ''Jane'', ''Bob'', ''Alice'', ''Charlie'', ''Diana'', ''Eve'', ''Frank'',
            ''Grace'', ''Henry'', ''Ivy'', ''Jack'', ''Kate'', ''Liam'', ''Mia'', ''Noah'']"

definition lastNames :: "string list" where
  "lastNames = [''Smith'', ''Johnson'', ''Williams'', ''Brown'', ''Jones'', ''Garcia'', ''Miller'',
                ''Davis'', ''Rodriguez'', ''Martinez'', ''Hernandez'', ''Lopez'', ''Gonzalez'']"

definition cities :: "string list" where
  "cities = [''New York'', ''Los Angeles'', ''Chicago'', ''Houston'', ''Phoenix'', ''Philadelphia'',
             ''San Antonio'', ''San Diego'', ''Dallas'', ''San Jose'', ''Austin'', ''Jacksonville'']"

definition countries :: "string list" where
  "countries = [''United States'', ''Canada'', ''United Kingdom'', ''Germany'', ''France'',
                ''Japan'', ''Australia'', ''Brazil'', ''India'', ''China'', ''Mexico'', ''Italy'']"

definition companies :: "string list" where
  "companies = [''Tech Corp'', ''Innovation Inc'', ''Global Solutions'', ''Future Systems'',
                ''Digital Dynamics'', ''Smart Industries'', ''NextGen Technologies'', ''Alpha Beta'']"

definition products :: "string list" where
  "products = [''Premium Widget'', ''Smart Device'', ''Digital Solution'', ''Advanced Tool'',
               ''Professional Service'', ''Quality Product'', ''Innovative System'', ''Elite Package'']"

definition domains :: "string list" where
  "domains = [''example.com'', ''test.org'', ''demo.net'', ''sample.io'']"

definition streets :: "string list" where
  "streets = [''Main St'', ''Oak Ave'', ''First St'', ''Second St'', ''Park Rd'', ''Elm St'']"

text \<open>
  The constructor: \<open>seed || 'default-seed'\<close> is hashed into the generator state.  The
  machine takes the clock and the UUID source from where the engine runs; no context has
  been created yet.
\<close>

definition new_TemplateEngine :: "string option \<Rightarrow> int \<Rightarrow> (nat \<Rightarrow> string) \<Rightarrow> machine" where
  "new_TemplateEngine seed clock uuids =
     \<lparr>m_clock = clock,
      m_rng = createSeededRng (if truthy_str seed then the seed else ''default-seed''),
      m_uuid_source = uuids,
      m_uuid_count = 0,
      m_dates = (\<lambda>address. 0),
      m_date_count = 0\<rparr>"



text \<open>
  \<open>uuidv4()\<close> takes the platform's next identifier.  \<open>toFixed(2)\<close> of a price: the
  price \<open>rng() * 999 + 1\<close> is exact in double precision, and \<open>toFixed\<close> rounds its exact
  value to hundredths, halves up.
\<close>

definition uuidv4 :: "machine \<Rightarrow> string \<times> machine" where
  "uuidv4 m = (m_uuid_source m (m_uuid_count m), m\<lparr>m_uuid_count := Suc (m_uuid_count m)\<rparr>)"

definition toFixed2 :: "int \<Rightarrow> string" where
  "toFixed2 hundredths =
     show_int (hundredths div 100) @ ''.''
     @ [digit_char (nat ((hundredths mod 100) div 10)), digit_char (nat (hundredths mod 10))]"

text \<open>
  The functions of the evaluation context that draw values, \<open>uuid()\<close>, \<open>rand(lo, hi)\<close>
  and the generators of \<open>faker.*\<close>, as calls on the machine.  The \<open>Date\<close> that
  \<open>faker.date.*\<close> returns is a fresh object, given by its time in milliseconds.
\<close>

datatype call =
    Uuid
  | Rand int int
  | FirstName | LastName | FullName
  | Email | UserName | Url
  | City | Country | ZipCode | StreetAddress
  | CompanyName
  | ProductName | Price
  | Number "int option" "int option" | Boolean | FakerUuid
  | DateRecent | DateFuture

fun run_call :: "call \<Rightarrow> machine \<Rightarrow> jsval \<times> machine" where
  "run_call Uuid m = (let (u, m1) = uuidv4 m in (JStr u, m1))"
| "run_call (Rand lo hi) m = (let (k, m1) = rng_floor (hi - lo + 1) m in (JNum (k + lo), m1))"
| "run_call FirstName m = (let (n, m1) = randomChoice names m in (JStr n, m1))"
| "run_call LastName m = (let (n, m1) = randomChoice lastNames m in (JStr n, m1))"
| "run_call FullName m =
     (let (f, m1) = randomChoice names m;
          (l, m2) = randomChoice lastNames m1
      in (JStr (f @ '' '' @ l), m2))"
| "run_call Email m =
     (let (f, m1) = randomChoice names m;
          (l, m2) = randomChoice lastNames m1;
          (d, m3) = randomChoice domains m2
      in (JStr (toLowerCase f @ ''.'' @ toLowerCase l @ ''@'' @ d), m3))"
| "run_call UserName m =
     (let (f, m1) = randomChoice names m;
          (num, m2) = rng_floor 1000 m1
      in (JStr (toLowerCase f @ show_int num), m2))"
| "run_call Url m = (let (d, m1) = randomChoice domains m in (JStr (''https://www.'' @ d), m1))"
| "run_call City m = (let (c, m1) = randomChoice cities m in (JStr c, m1))"
| "run_call Country m = (let (c, m1) = randomChoice countries m in (JStr c, m1))"
| "run_call ZipCode m = (let (k, m1) = rng_floor 90000 m in (JStr (show_int (k + 10000)), m1))"
| "run_call StreetAddress m =
     (let (k, m1) = rng_floor 9999 m;
          (s, m2) = randomChoice streets m1
      in (JStr (show_int (k + 1) @ '' '' @ s), m2))"
| "run_call CompanyName m = (let (c, m1) = randomChoice companies m in (JStr c, m1))"
| "run_call ProductName m = (let (p, m1) = randomChoice products m in (JStr p, m1))"
| "run_call Price m =
     (let (w, a) = mulberry32 (m_rng m)
      in (JStr (toFixed2 ((100 * (uint w * 999 + 4294967296) + 2147483648) div 4294967296)),
          m\<lparr>m_rng := a\<rparr>))"
| "run_call (Number lo hi) m =
     (let mn = (case lo of None \<Rightarrow> 0 | Some x \<Rightarrow> x);
          mx = (case hi of None \<Rightarrow> 100 | Some x \<Rightarrow> x);
          (k, m1) = rng_floor (mx - mn + 1) m
      in (JNum (k + mn), m1))"
| "run_call Boolean m =
     (let (w, a) = mulberry32 (m_rng m) in (JBool (uint w > 2147483648), m\<lparr>m_rng := a\<rparr>))"
| "run_call FakerUuid m = (let (u, m1) = uuidv4 m in (JStr u, m1))"
| "run_call DateRecent m =
     (let now = m_clock m;
          (daysBack, m1) = rng_floor 30 m
      in (JNum (now - daysBack * 24 * 60 * 60 * 1000), m1))"
| "run_call DateFuture m =
     (let now = m_clock m;
          (daysForward, m1) = rng_floor 365 m
      in (JNum (now + daysForward * 24 * 60 * 60 * 1000), m1))"

fun run_calls :: "call list \<Rightarrow> machine \<Rightarrow> jsval list \<times> machine" where
  "run_calls [] m = ([], m)"
| "run_calls (c # cs) m =
     (let (v, m1) = run_call c m;
          (vs, m2) = run_calls cs m1
      in (v # vs, m2))"

text \<open>
  The calls whose result is computed from draws of the seeded generator alone; the others
  take an identifier from the UUID source or read the clock.
\<close>

fun seeded :: "call \<Rightarrow> bool" where
  "seeded Uuid = False"
| "seeded FakerUuid = False"
| "seeded DateRecent = False"
| "seeded DateFuture = False"
| "seeded c = True"

subsection \<open>Templating a data tree\<close>

text \<open>
  \<open>deepProcess\<close> renders every string beneath a node, the keys of objects included, each
  by a call of \<open>render\<close>; \<open>processTemplate\<close> looks for objects marked \<open>$template: true\<close>,
  removes the marker and processes them.
\<close>

fun deepProcess :: "evaluator \<Rightarrow> render_context \<Rightarrow> jsval \<Rightarrow> machine \<Rightarrow> jsval \<times> machine"
and deepProcess_items :: "evaluator \<Rightarrow> render_context \<Rightarrow> jsval list \<Rightarrow> machine \<Rightarrow> jsval list \<times> machine"
and deepProcess_entries ::
  "evaluator \<Rightarrow> render_context \<Rightarrow> (string \<times> jsval) list \<Rightarrow> (string \<times> jsval) list \<Rightarrow> machine
   \<Rightarrow> (string \<times> jsval) list \<times> machine" where
  "deepProcess ev context (JStr s) m = (let (out, m1) = render ev s context m in (JStr out, m1))"
| "deepProcess ev context (JArr xs) m =
     (let (ys, m1) = deepProcess_items ev context xs m in (JArr ys, m1))"
| "deepProcess ev context (JObj kvs) m =
     (let (res, m1) = deepProcess_entries ev context kvs [] m in (JObj res, m1))"
| "deepProcess ev context JNull m = (JNull, m)"
| "deepProcess ev context (JBool b) m = (JBool b, m)"
| "deepProcess ev context (JNum n) m = (JNum n, m)"
| "deepProcess_items ev context [] m = ([], m)"
| "deepProcess_items ev context (x # xs) m =
     (let (y, m1) = deepProcess ev context x m;
          (ys, m2) = deepProcess_items ev context xs m1
      in (y # ys, m2))"
| "deepProcess_entries ev context [] result m = (result, m)"
| "deepProcess_entries ev context ((key, v) # rest) result m =
     (let (processedKey, m1) = render ev key context m;
          (pv, m2) = deepProcess ev context v m1
      in deepProcess_entries ev context rest (AList.update processedKey pv result) m2)"

fun processTemplate :: "evaluator \<Rightarrow> render_context \<Rightarrow> jsval \<Rightarrow> machine \<Rightarrow> jsval \<times> machine"
and processTemplate_items :: "evaluator \<Rightarrow> render_context \<Rightarrow> jsval list \<Rightarrow> machine \<Rightarrow> jsval list \<times> machine"
and processTemplate_entries ::
  "evaluator \<Rightarrow> render_context \<Rightarrow> (string \<times> jsval) list \<Rightarrow> (string \<times> jsval) list \<Rightarrow> machine
   \<Rightarrow> (string \<times> jsval) list \<times> machine" where
  "processTemplate ev context (JObj kvs) m =
     (if map_of kvs ''$template'' = Some (JBool True)
      then deepProcess ev context (JObj (AList.delete ''$template'' kvs)) m
      else (let (res, m1) = processTemplate_entries ev context kvs [] m in (JObj res, m1)))"
| "processTemplate ev context (JArr xs) m =
     (let (ys, m1) = processTemplate_items ev context xs m in (JArr ys, m1))"
| "processTemplate ev context JNull m = (JNull, m)"
| "processTemplate ev context (JBool b) m = (JBool b, m)"
| "processTemplate ev context (JNum n) m = (JNum n, m)"
| "processTemplate ev context (JStr s) m = (JStr s, m)"
| "processTemplate_items ev context [] m = ([], m)"
| "processTemplate_items ev context (x # xs) m =
     (let (y, m1) = processTemplate ev context x m;
          (ys, m2) = processTemplate_items ev context xs m1
      in (y # ys, m2))"
| "processTemplate_entries ev context [] result m = (result, m)"
| "processTemplate_entries ev context ((key, v) # rest) result m =
     (let (pv, m1) = processTemplate ev context v m
      in processTemplate_entries ev context rest (AList.update key pv result) m1)"

subsection \<open>Placeholders and their substitution\<close>




definition substitution :: "string \<Rightarrow> (string + jsval option) \<Rightarrow> string" where
  "substitution placeholder r =
     (case r of
        Inl failure \<Rightarrow> placeholder
      | Inr None \<Rightarrow> []
      | Inr (Some JNull) \<Rightarrow> []
      | Inr (Some v) \<Rightarrow> js_String v)"


text \<open>Concrete evaluators, machines and inputs used below.\<close>


definition ev_date :: evaluator where
  "ev_date ctx expression m =
     (if expression = ''now.getTime()''
      then (Inr (Some (JNum (now_of ctx m))), m\<lparr>m_clock := m_clock m + 5\<rparr>)
      else if expression = ''now.setTime(0)''
      then (Inr (Some (JNum 0)), m\<lparr>m_clock := m_clock m + 5, m_dates := (m_dates m)(tc_now ctx := 0)\<rparr>)
      else (Inl (expression @ '' is not defined''), m))"

definition ev_pid :: evaluator where
  "ev_pid ctx expression m =
     (if expression = ''process.pid'' then (Inr (Some (JNum 4242)), m)
      else (Inl (expression @ '' is not defined''), m))"


definition uuids_run1 :: "nat \<Rightarrow> string" where
  "uuids_run1 n = ''6f1c2a9e-5d43-4b7a-9c0e-2f8d1a3b4c5d''"

definition uuids_run2 :: "nat \<Rightarrow> string" where
  "uuids_run2 n = ''0b9d4e71-83a2-4c6f-b1d5-7e2a9c4f6d80''"

definition machine_run1 :: machine where
  "machine_run1 = new_TemplateEngine (Some ''t'') 1000 uuids_run1"

definition machine_run2 :: machine where
  "machine_run2 = new_TemplateEngine (Some ''t'') 990000 uuids_run2"

definition context0 :: render_context where
  "context0 = \<lparr>rc_req = None, rc_session = None, rc_state = None\<rparr>"



text \<open>The outcome of an evaluation with the message of a failure forgotten.\<close>

definition forget_message :: "(string + jsval option) \<Rightarrow> (string + jsval option)" where
  "forget_message r = (case r of Inl msg \<Rightarrow> Inl [] | Inr v \<Rightarrow> Inr v)"

section \<open>Properties of the request pipeline\<close>

lemma extractSessionId_supplied:
  "supplies_session req sid \<Longrightarrow> sid \<noteq> [] \<Longrightarrow> extractSessionId req = sid"
  by (auto simp: supplies_session_def extractSessionId_def truthy_str_def Let_def
           split: option.splits)

lemma extractSessionId_fallback:
  "no_credentials req \<Longrightarrow> extractSessionId req = ''GLOBAL''"
  by (simp add: no_credentials_def extractSessionId_def Let_def)

lemma buildStateKey_global_iff:
  "buildStateKey key sid scope = ''global:'' @ key \<longleftrightarrow> scope = ''global''"
  by (simp add: buildStateKey_def)

text \<open>
  C10.  A request that itself supplies the identifier \<open>GLOBAL\<close> (header, cookie or
  Authorization, in the resolution order) resolves the same session id as a request with
  no credentials; with the default scope both write under \<open>session:GLOBAL:<key>\<close>, and the
  key is \<open>global:<key>\<close> exactly when the action's scope is \<open>global\<close>.
\<close>

theorem global_sentinel_shares_session:
  assumes "supplies_session req ''GLOBAL''" and "no_credentials req0"
  shows "extractSessionId req = extractSessionId req0
         \<and> extractSessionId req = ''GLOBAL''
         \<and> state_fullKey req key None = ''session:GLOBAL:'' @ key
         \<and> state_fullKey req0 key None = ''session:GLOBAL:'' @ key
         \<and> state_fullKey req key (Some ''session'') = state_fullKey req0 key (Some ''session'')
         \<and> (state_fullKey req key scope = ''global:'' @ key
              \<longleftrightarrow> scope = Some ''global'')"
proof -
  have a: "extractSessionId req = ''GLOBAL''"
    using assms(1) by (rule extractSessionId_supplied) simp
  have b: "extractSessionId req0 = ''GLOBAL''"
    using assms(2) by (rule extractSessionId_fallback)
  have c: "scope_or_default scope = ''global'' \<longleftrightarrow> scope = Some ''global''"
    by (cases scope) (auto simp: scope_or_default_def truthy_str_def)
  show ?thesis
    using a b c
    by (simp add: state_fullKey_def buildStateKey_global_iff)
       (simp add: buildStateKey_def scope_or_default_def truthy_str_def)
qed

theorem global_sentinel_shares_session_witness:
  "supplies_session req_global_header ''GLOBAL'' \<and> no_credentials req_anonymous
   \<and> extractSessionId req_global_header = extractSessionId req_anonymous
   \<and> state_fullKey req_global_header ''cart'' None = ''session:GLOBAL:cart''
   \<and> state_fullKey req_anonymous ''cart'' None = ''session:GLOBAL:cart''
   \<and> state_fullKey req_global_header ''cart'' (Some ''global'') = ''global:cart''"
proof -
  have h1: "supplies_session req_global_header ''GLOBAL''"
    by (simp add: supplies_session_def req_global_header_def)
  have h2: "no_credentials req_anonymous"
    by (simp add: no_credentials_def req_anonymous_def truthy_str_def)
  show ?thesis
    using h1 h2 global_sentinel_shares_session [OF h1 h2, of "''cart''" "Some ''global''"]
          global_sentinel_shares_session [OF h1 h2, of "''cart''" None]
    by simp
qed

section \<open>Properties of the router\<close>

lemma fold_query_lookup:
  "fold (\<lambda>(key, v) query. query(key \<mapsto> v)) entries m k =
     (case map_of (rev entries) k of Some v \<Rightarrow> Some v | None \<Rightarrow> m k)"
  by (induction entries arbitrary: m) (auto simp: map_add_def split: option.splits)

lemma parse_query_last_wins: "parse_query entries k = map_of (rev entries) k"
  by (simp add: parse_query_def fold_query_lookup split: option.splits)

text \<open>
  C5.  A query string that repeats a key: the loop of \<open>parseRequest\<close> assigns every
  occurrence in turn, so the map ends with the value of the last occurrence.  For
  \<open>/pets?tag=cat&tag=dog\<close> the parsed query binds \<open>tag\<close> to \<open>dog\<close>, not to \<open>cat\<close>.
\<close>

theorem parseRequest_repeated_key_last_value:
  "req_query (parseRequest url_repeated msg_plain) ''tag'' = Some ''dog''"
  by (simp add: parseRequest_def parse_query_def url_repeated_def Let_def)

lemma query_loop_all:
  "query_loop rx query q True = list_all (\<lambda>(key, e). valueMatches rx (query key) e) q"
proof (induction q)
  case Nil
  show ?case by simp
next
  case (Cons x q)
  then show ?case by (cases x) simp
qed

lemma headers_loop_all:
  "headers_loop rx headers h True =
     list_all (\<lambda>(key, e). valueMatches rx (headers (toLowerCase key)) e) h"
proof (induction h)
  case Nil
  show ?case by simp
next
  case (Cons x h)
  then show ?case by (cases x) simp
qed

lemma operation_check_selector:
  "operation_check w op = Some True \<longleftrightarrow> selector_matches_operation w op"
  by (auto simp: operation_check_def selector_matches_operation_def)

lemma scenarioMatches_unfold:
  "scenarioMatches rx w op requestContext =
     (selector_matches_operation w op
      \<and> (conditions_match rx w requestContext \<noteq> (when_negate w = Some True)))"
proof (cases "operation_check w op")
  case None
  then have "\<not> selector_matches_operation w op"
    using operation_check_selector [of w op] by simp
  with None show ?thesis by (simp add: scenarioMatches_def)
next
  case (Some matches)
  show ?thesis
  proof (cases matches)
    case False
    with Some have "\<not> selector_matches_operation w op"
      using operation_check_selector [of w op] by simp
    with Some False show ?thesis by (simp add: scenarioMatches_def)
  next
    case True
    with Some have sel: "selector_matches_operation w op"
      using operation_check_selector [of w op] by simp
    show ?thesis
      using Some True sel
      by (auto simp: scenarioMatches_def conditions_match_def Let_def
                     query_loop_all headers_loop_all
               split: option.splits)
  qed
qed

text \<open>
  C7 as stated fails: a negated rule for \<open>createPet\<close> is not selected for the operation
  \<open>listPets\<close>, although its un-negated combination does not match there.
\<close>

theorem negate_whole_outcome_counterexample:
  "when_negate sel_not_createPet = Some True
   \<and> \<not> (selector_matches_operation sel_not_createPet op_listPets
          \<and> conditions_match no_regex sel_not_createPet ctx_empty)
   \<and> \<not> scenarioMatches no_regex sel_not_createPet op_listPets ctx_empty"
  by (simp add: sel_not_createPet_def op_listPets_def scenarioMatches_def operation_check_def
                selector_matches_operation_def truthy_str_def)

text \<open>
  C7, amended.  The operation selector is checked first and is not negated: a rule whose
  operation selector does not match is never selected.  For a rule with \<open>negate: true\<close>
  the flag flips the outcome of the query and header conditions only: the rule is selected
  exactly when its operation selector matches and its conditions do not all match.
\<close>

theorem negate_flips_conditions:
  assumes "when_negate w = Some True"
  shows "scenarioMatches rx w op requestContext =
           (selector_matches_operation w op \<and> \<not> conditions_match rx w requestContext)"
  using assms by (simp add: scenarioMatches_unfold)

theorem negate_flips_conditions_witness:
  "when_negate sel_listPets_not_debug = Some True
   \<and> selector_matches_operation sel_listPets_not_debug op_listPets
   \<and> \<not> conditions_match no_regex sel_listPets_not_debug ctx_empty
   \<and> scenarioMatches no_regex sel_listPets_not_debug op_listPets ctx_empty"
proof -
  have h: "when_negate sel_listPets_not_debug = Some True"
    by (simp add: sel_listPets_not_debug_def)
  have s: "selector_matches_operation sel_listPets_not_debug op_listPets"
    by (simp add: selector_matches_operation_def sel_listPets_not_debug_def op_listPets_def
                  truthy_str_def)
  have c: "\<not> conditions_match no_regex sel_listPets_not_debug ctx_empty"
    by (simp add: conditions_match_def sel_listPets_not_debug_def ctx_empty_def valueMatches_def)
  show ?thesis
    using h s c negate_flips_conditions [OF h, of no_regex op_listPets ctx_empty] by simp
qed

section \<open>Properties of the document loader\<close>

lemma push_params_descriptors: "push_params ps acc = acc @ descriptors ps"
  by (induction ps acc rule: push_params.induct) auto

lemma collect_parameters_append:
  "collect_parameters pp opp = descriptors_of pp @ descriptors_of opp"
  by (simp add: collect_parameters_def descriptors_of_def push_params_descriptors
           split: option.splits)

text \<open>
  C8 as stated fails: with \<open>limit\<close> declared at both levels the resulting list holds two
  descriptors for that name, the path-level one included.
\<close>

theorem parameters_collision_counterexample:
  "named ''limit'' (collect_parameters (Some [ParamObj limit_path_level])
                                       (Some [ParamObj limit_operation_level]))
     = [limit_path_level, limit_operation_level]
   \<and> limit_path_level \<noteq> limit_operation_level"
  by (simp add: collect_parameters_def named_def limit_path_level_def limit_operation_level_def)

text \<open>
  C8, amended.  The parameter list of an operation is the path-level descriptors followed
  by the operation-level descriptors, with nothing removed: for every name the list holds
  the path-level descriptors of that name and then the operation-level ones, so for a name
  declared at both levels both descriptors are kept and the operation-level one comes last.
\<close>

theorem parameters_concatenated:
  "collect_parameters pp opp = descriptors_of pp @ descriptors_of opp
   \<and> named n (collect_parameters pp opp) = named n (descriptors_of pp) @ named n (descriptors_of opp)"
  by (simp add: collect_parameters_append named_def)

theorem parameters_concatenated_witness:
  "collect_parameters (Some [ParamObj limit_path_level, ParamRef ''#/components/parameters/q''])
                      (Some [ParamObj limit_operation_level])
     = [limit_path_level, limit_operation_level]"
  using parameters_concatenated [of "Some [ParamObj limit_path_level, ParamRef ''#/components/parameters/q'']"
                                    "Some [ParamObj limit_operation_level]" "''limit''"]
  by (simp add: descriptors_of_def)

section \<open>Properties of the stores\<close>

subsection \<open>Reads of the file store and the disk\<close>

text \<open>
  C4 as stated fails: a read that finds the entry expired appends a \<open>del\<close> record to the
  append log (and takes the entry out of the cache).
\<close>

theorem file_get_expired_writes_log_counterexample:
  "fs_log store_expired = []
   \<and> fs_log (snd (file_get ''k'' 2000 store_expired)) = [del_record ''k'' 2000]
   \<and> fs_cache (snd (file_get ''k'' 2000 store_expired)) = []
   \<and> fst (file_get ''k'' 2000 store_expired) = Inr None"
  by (simp add: store_expired_def file_get_def is_expired_def appendLog_def del_record_def)

text \<open>
  C4, amended.  A \<open>get\<close> never changes the snapshot file.  When the store is not
  initialized, when the key is absent, and when the entry has not expired, it leaves the
  append log and the cache unchanged, and returns an error, \<open>undefined\<close> and the value of
  the entry.  A read that finds the entry expired returns \<open>undefined\<close>, deletes the entry
  from the cache and, the log file being open, appends exactly one \<open>del\<close> record for the
  key to the log.
\<close>

theorem file_get_disk_effect:
  "fs_snapshot (snd (file_get key now st)) = fs_snapshot st
   \<and> fs_log (snd (file_get key now st)) =
       (if fs_isInitialized st \<and> fs_logFileHandle st \<and> finds_expired st key now
        then fs_log st @ [del_record key now]
        else fs_log st)
   \<and> fs_cache (snd (file_get key now st)) =
       (if fs_isInitialized st \<and> finds_expired st key now
        then AList.delete key (fs_cache st)
        else fs_cache st)
   \<and> fst (file_get key now st) =
       (if \<not> fs_isInitialized st then Inl NotInitialized
        else if finds_expired st key now then Inr None
        else Inr (map_option fe_value (map_of (fs_cache st) key)))"
  by (simp add: file_get_def finds_expired_def appendLog_def del_record_def
           split: option.splits)

theorem file_get_disk_effect_witness:
  "fs_snapshot (snd (file_get ''k'' 500 store_expired)) = fs_snapshot store_expired
   \<and> fs_log (snd (file_get ''k'' 500 store_expired)) = fs_log store_expired
   \<and> fs_cache (snd (file_get ''k'' 500 store_expired)) = fs_cache store_expired
   \<and> fst (file_get ''k'' 500 store_expired) = Inr (Some (JNum 7))
   \<and> fs_snapshot (snd (file_get ''k'' 2000 store_expired)) = fs_snapshot store_expired
   \<and> fs_log (snd (file_get ''k'' 2000 store_expired)) = fs_log store_expired @ [del_record ''k'' 2000]
   \<and> fs_cache (snd (file_get ''k'' 2000 store_expired)) = AList.delete ''k'' (fs_cache store_expired)
   \<and> map_of (fs_cache (snd (file_get ''k'' 2000 store_expired))) ''k'' = None
   \<and> fst (file_get ''k'' 2000 store_expired) = Inr None"
proof -
  have a: "\<not> finds_expired store_expired ''k'' 500"
    by (simp add: finds_expired_def store_expired_def is_expired_def)
  have b: "finds_expired store_expired ''k'' 2000"
    by (simp add: finds_expired_def store_expired_def is_expired_def)
  have c: "fs_isInitialized store_expired \<and> fs_logFileHandle store_expired"
    by (simp add: store_expired_def)
  have d: "map_option fe_value (map_of (fs_cache store_expired) ''k'') = Some (JNum 7)
           \<and> map_of (AList.delete ''k'' (fs_cache store_expired)) ''k'' = None"
    by (simp add: store_expired_def)
  show ?thesis
    using a b c d file_get_disk_effect [of "''k''" 500 store_expired]
          file_get_disk_effect [of "''k''" 2000 store_expired]
    by simp
qed

subsection \<open>Patch\<close>

text \<open>
  The merge table.  Looked up by key, a merged object is the existing object overridden
  by the incoming one; for two objects with distinct and disjoint keys it is the key-wise
  union, the existing entries first.
\<close>

lemma spread_into_map_of: "map_of (spread_into acc obj) = map_of acc ++ map_of (rev obj)"
proof (induction obj arbitrary: acc)
  case Nil
  show ?case by (simp add: spread_into_def)
next
  case (Cons x obj)
  obtain k v where x: "x = (k, v)" by (cases x)
  have "map_of (spread_into acc (x # obj)) = map_of (spread_into (AList.update k v acc) obj)"
    by (simp add: spread_into_def x)
  also have "\<dots> = map_of (AList.update k v acc) ++ map_of (rev obj)"
    by (rule Cons.IH)
  also have "\<dots> = (map_of acc ++ [k \<mapsto> v]) ++ map_of (rev obj)"
    by (simp add: update_conv')
  also have "\<dots> = map_of acc ++ map_of (rev (x # obj))"
    by (simp add: x)
  finally show ?case .
qed

lemma update_fresh: "k \<notin> fst ` set acc \<Longrightarrow> AList.update k v acc = acc @ [(k, v)]"
  by (induction acc) auto

lemma spread_into_disjoint:
  "distinct (map fst obj) \<Longrightarrow> fst ` set acc \<inter> fst ` set obj = {}
   \<Longrightarrow> spread_into acc obj = acc @ obj"
proof (induction obj arbitrary: acc)
  case Nil
  show ?case by (simp add: spread_into_def)
next
  case (Cons x obj)
  obtain k v where x: "x = (k, v)" by (cases x)
  from Cons.prems have fresh: "k \<notin> fst ` set acc" by (auto simp: x)
  have step: "spread_into acc (x # obj) = spread_into (acc @ [(k, v)]) obj"
    by (simp add: spread_into_def x update_fresh [OF fresh])
  have "spread_into (acc @ [(k, v)]) obj = (acc @ [(k, v)]) @ obj"
  proof (rule Cons.IH)
    show "distinct (map fst obj)" using Cons.prems by simp
    show "fst ` set (acc @ [(k, v)]) \<inter> fst ` set obj = {}"
      using Cons.prems by (auto simp: x)
  qed
  with step show ?case by (simp add: x)
qed

lemma merge_disjoint_objects:
  assumes "distinct (map fst a)" "distinct (map fst b)" "fst ` set a \<inter> fst ` set b = {}"
  shows "merge_existing (JObj a) (Some (JObj b)) = Some (JObj (a @ b))"
proof -
  have "spread_into [] a = a" using assms(1) by (simp add: spread_into_disjoint)
  then show ?thesis using assms by (simp add: spread_into_disjoint)
qed

lemma merge_objects_lookup:
  "merge_existing (JObj a) (Some (JObj b)) = Some (JObj m)
   \<Longrightarrow> map_of m = map_of (rev a) ++ map_of (rev b)"
  by (auto simp: spread_into_map_of)


lemma merge_existing_defined: "\<exists>m. merge_existing ex (Some v) = Some m"
  by (cases "(ex, Some v)" rule: merge_existing.cases) auto

lemma map_of_update_same: "map_of (AList.update k v al) k = Some v"
  by (simp add: update_conv')

lemma file_patch_live:
  assumes "fs_isInitialized st" and "map_of (fs_cache st) key = Some e"
    and "\<not> is_expired (fe_expiresAt e) now"
    and "merge_existing (fe_value e) (Some v) = Some m"
  shows "fst (file_patch key (Some v) now st) = None
         \<and> map_of (fs_cache (snd (file_patch key (Some v) now st))) key
             = Some \<lparr>fe_value = m, fe_expiresAt = or_undefined (fe_expiresAt e),
                     fe_createdAt = createdAt_or (Some e) now, fe_updatedAt = now\<rparr>"
  using assms
  by (simp add: file_patch_def file_get_def serialize_def expiresAt_of_def appendLog_def
                Let_def map_of_update_same)

lemma file_patch_absent:
  assumes "fs_isInitialized st" and "map_of (fs_cache st) key = None"
  shows "fst (file_patch key (Some v) now st) = None
         \<and> map_of (fs_cache (snd (file_patch key (Some v) now st))) key
             = Some \<lparr>fe_value = v, fe_expiresAt = None, fe_createdAt = now, fe_updatedAt = now\<rparr>"
  using assms
  by (simp add: file_patch_def file_get_def serialize_def expiresAt_of_def appendLog_def
                createdAt_or_def Let_def map_of_update_same)

lemma file_get_after_patch_live:
  assumes "fs_isInitialized st" and "map_of (fs_cache st) key = Some e"
    and "\<not> is_expired (fe_expiresAt e) now"
    and "merge_existing (fe_value e) (Some v) = Some m"
  shows "fst (file_get key now (snd (file_patch key (Some v) now st))) = Inr (Some m)"
proof -
  let ?st' = "snd (file_patch key (Some v) now st)"
  have init: "fs_isInitialized ?st'"
    using assms
    by (simp add: file_patch_def file_get_def serialize_def appendLog_def Let_def)
  have ne: "\<not> is_expired (or_undefined (fe_expiresAt e)) now"
    using assms(3) by (auto simp: is_expired_def or_undefined_def split: option.splits)
  show ?thesis
    using file_patch_live [OF assms] init ne by (simp add: file_get_def)
qed

text \<open>
  The file store keeps the expiry of a live entry as it is.  The in-memory store sets the
  entry again with the remaining time in whole seconds: with a second or more left the new
  expiry lies less than a second before the old one, with less it is dropped.
\<close>

lemma scheduleExpiration_cache:
  "ms_cache (snd (scheduleExpiration key entry t st)) = ms_cache st"
  by (simp add: scheduleExpiration_def Let_def)

lemma mem_set_present:
  assumes "map_of (ms_cache st) key = Some e0"
  shows "map_of (ms_cache (snd (mem_set key (Some v) ttl now st))) key
           = Some \<lparr>me_value = v, me_expiresAt = set_expiry st ttl now\<rparr>"
proof -
  have st1: "(if ms_maxSize st \<le> length (ms_cache st) \<and> map_of (ms_cache st) key = None
              then evictOldest st else st) = st"
    using assms by simp
  define x where "x = set_expiry st ttl now"
  have x: "or_undefined (case (case ttl of None \<Rightarrow> ms_defaultTtl st | Some t \<Rightarrow> Some t) of
                     None \<Rightarrow> None
                   | Some t \<Rightarrow> if t \<noteq> 0 then Some (now + t * 1000) else None) = x"
    by (simp add: x_def set_expiry_def)
  show ?thesis
    unfolding mem_set_def Let_def st1 serialize_def x x_def [symmetric]
    by (cases x) (simp_all add: scheduleExpiration_cache map_of_update_same)
qed

lemma mem_get_live:
  "map_of (ms_cache st) key = Some e \<Longrightarrow> \<not> is_expired (me_expiresAt e) now
   \<Longrightarrow> mem_get key now st = (Some (me_value e), st)"
  by (simp add: mem_get_def)

lemma mem_patch_live:
  assumes "map_of (ms_cache st) key = Some e"
    and "\<not> is_expired (me_expiresAt e) now"
    and "merge_existing (me_value e) (Some v) = Some m"
  shows "map_of (ms_cache (snd (mem_patch key (Some v) now st))) key
           = Some \<lparr>me_value = m,
                   me_expiresAt = set_expiry st (remaining_ttl (ms_cache st) key now) now\<rparr>"
  using assms
  by (simp add: mem_patch_def mem_get_live mem_set_present)

lemma mem_patch_expiry_whole_seconds:
  assumes "map_of cache key = Some e" and "me_expiresAt e = Some x" and "now + 1000 \<le> x"
    and "0 \<le> now"
  shows "set_expiry st (remaining_ttl cache key now) now = Some (now + ((x - now) div 1000) * 1000)
         \<and> x - 1000 < now + ((x - now) div 1000) * 1000
         \<and> now + ((x - now) div 1000) * 1000 \<le> x"
proof -
  have pos: "1 \<le> (x - now) div 1000" using assms(3) by simp
  have x0: "x \<noteq> 0" using assms(3,4) by simp
  have r: "remaining_ttl cache key now = Some ((x - now) div 1000)"
    using assms(1,2) pos x0 by (simp add: remaining_ttl_def or_undefined_def max_def)
  have ne: "now + ((x - now) div 1000) * 1000 \<noteq> 0" using pos assms(4) by simp
  have s: "set_expiry st (remaining_ttl cache key now) now = Some (now + ((x - now) div 1000) * 1000)"
    using pos ne by (simp add: r set_expiry_def or_undefined_def)
  have "(x - now) div 1000 * 1000 \<le> x - now" by simp
  moreover have "x - now - 1000 < (x - now) div 1000 * 1000"
    using div_mult_mod_eq [of "x - now" 1000] pos_mod_bound [of 1000 "x - now"] by arith
  ultimately show ?thesis using s by simp
qed

lemma mem_patch_expiry_lost:
  assumes "map_of cache key = Some e" and "me_expiresAt e = Some x" and "now < x"
    and "x < now + 1000" and "0 \<le> now"
  shows "set_expiry st (remaining_ttl cache key now) now = None"
proof -
  have z: "(x - now) div 1000 = 0" using assms(3,4) by simp
  have x0: "x \<noteq> 0" using assms(3,5) by simp
  have r: "remaining_ttl cache key now = Some 0"
    using assms(1,2) z x0 by (simp add: remaining_ttl_def or_undefined_def)
  show ?thesis by (simp add: r set_expiry_def or_undefined_def)
qed

text \<open>
  C6.  The in-memory store passes the remaining time-to-live to \<open>set\<close> in whole seconds.
  With less than a second left that is \<open>0\<close>, which \<open>set\<close> reads as no expiry at all.
  A store is made at 100 ms, an entry set at 200 ms with a time-to-live of one second
  (expiry 1200 ms) and patched at 700 ms: the patched entry has no expiry, the sweeps of the
  timer at 1100, 2100, 3100 and 4100 ms pass it by, and it is still read at 5000 ms.
\<close>

theorem mem_patch_drops_expiry:
  "(let s0 = new_MemoryStore None None 100;
        s1 = snd (mem_set ''k'' (Some obj_a) (Some 1) 200 s0);
        s2 = snd (mem_patch ''k'' (Some obj_b) 700 s1);
        s3 = cleanup 4100 (cleanup 3100 (cleanup 2100 (cleanup 1100 s2)))
    in map_of (ms_cache s1) ''k'' = Some \<lparr>me_value = obj_a, me_expiresAt = Some 1200\<rparr>
       \<and> map_of (ms_cache s2) ''k''
           = Some \<lparr>me_value = JObj [(''a'', JNum 1), (''b'', JNum 2)], me_expiresAt = None\<rparr>
       \<and> fst (mem_get ''k'' 5000 s3) = Some (JObj [(''a'', JNum 1), (''b'', JNum 2)]))"
  by (simp add: Let_def new_MemoryStore_def mem_set_def mem_patch_def mem_get_def
                serialize_def or_undefined_def is_expired_def scheduleExpiration_def
                wheelSize_def remaining_ttl_def obj_a_def obj_b_def spread_into_def
                cleanup_def sweep_slot_def
                cleanup_from.simps [where lastCleanup = 0] cleanup_from.simps [where lastCleanup = 1]
                cleanup_from.simps [where lastCleanup = 2] cleanup_from.simps [where lastCleanup = 3]
                cleanup_from.simps [where lastCleanup = 4])

section \<open>Properties of the template engine\<close>

subsection \<open>The guards of \<open>evaluate\<close>\<close>

text \<open>
  \<open>evaluate\<close> refuses an expression longer than the limit and one that a deny-list
  pattern finds, without running the evaluator: the machine is as it was.
\<close>

lemma evaluate_refuses_long:
  "length e > MAX_EXPRESSION_LENGTH \<Longrightarrow> \<exists>msg. evaluate ev e c m = (Inl msg, m)"
  by (simp add: evaluate_def)

lemma evaluate_refuses_dangerous:
  "containsDangerousCode e \<Longrightarrow> \<exists>msg. evaluate ev e c m = (Inl msg, m)"
  by (simp add: evaluate_def)

text \<open>
  C1.  \<open>render\<close> hands the text of every placeholder to the evaluator without either
  guard.  Where \<open>process.pid\<close> evaluates to a number, as it does under the \<open>Function\<close>
  constructor of the platform, \<open>evaluate\<close> refuses the expression and \<open>render\<close>
  substitutes its value.
\<close>

theorem render_evaluates_denied_expression:
  "containsDangerousCode ''process.pid''
   \<and> fst (evaluate ev_pid ''process.pid'' context0 machine_run1)
       = Inl ''Expression contains potentially dangerous code''
   \<and> fst (render ev_pid ''pid={{ process.pid }}'' context0 machine_run1) = ''pid=4242''"
proof -
  have d: "containsDangerousCode ''process.pid''"
    by (simp add: containsDangerousCode_def dangerousPatterns_def word_here_def word_char_def
                  upper_letters_def lower_letters_def)
  have e: "fst (evaluate ev_pid ''process.pid'' context0 machine_run1)
             = Inl ''Expression contains potentially dangerous code''"
    using d by (simp add: evaluate_def MAX_EXPRESSION_LENGTH_def)
  have r: "fst (render ev_pid ''pid={{ process.pid }}'' context0 machine_run1) = ''pid=4242''"
    by (simp add: render_def match_here_def render_callback_def evaluateWithContext_def
                  createSafeEvaluator_def ev_pid_def trim_def js_space_def
                  MAX_EXECUTION_TIME_def show_int_def show_nat.simps digit_char_def Let_def
                  case_prod_beta)
  show ?thesis using d e r by simp
qed

subsection \<open>Placeholders\<close>






lemma substitution_forgets_message: "substitution mt (forget_message r) = substitution mt r"
  by (cases r) (simp_all add: substitution_def forget_message_def)




subsection \<open>The timestamp \<open>now\<close>\<close>


text \<open>
  Within one call the placeholders share the one \<open>Date\<close> object of the context, and an
  expression can change it: after \<open>now.setTime(0)\<close> the later placeholders of the same
  string read 0.
\<close>

lemma render_now_object_is_mutable:
  "fst (render ev_date ''{{ now.getTime() }} {{ now.setTime(0) }} {{ now.getTime() }}''
          context0 machine_run1) = ''1000 0 0''"
  by (simp add: ev_date_def now_of_def context0_def machine_run1_def
                new_TemplateEngine_def render_def match_here_def createContext_def
                render_callback_def evaluateWithContext_def createSafeEvaluator_def trim_def
                js_space_def MAX_EXECUTION_TIME_def show_int_def show_nat.simps digit_char_def
                or_empty_object_def Let_def)






subsection \<open>Seeded generation\<close>

lemma rng_floor_fst:
  "fst (rng_floor n m) = (uint (fst (mulberry32 (m_rng m))) * n) div 4294967296"
  by (simp add: rng_floor_def case_prod_beta)

lemma rng_floor_rng: "m_rng (snd (rng_floor n m)) = snd (mulberry32 (m_rng m))"
  by (simp add: rng_floor_def case_prod_beta)

lemma randomChoice_fst:
  "fst (randomChoice xs m)
     = xs ! nat ((uint (fst (mulberry32 (m_rng m))) * int (length xs)) div 4294967296)"
  by (simp add: randomChoice_def case_prod_beta rng_floor_fst)

lemma randomChoice_rng: "m_rng (snd (randomChoice xs m)) = snd (mulberry32 (m_rng m))"
  by (simp add: randomChoice_def case_prod_beta rng_floor_rng)

lemma run_call_seeded:
  assumes "seeded c" and "m_rng m1 = m_rng m2"
  shows "fst (run_call c m1) = fst (run_call c m2)
         \<and> m_rng (snd (run_call c m1)) = m_rng (snd (run_call c m2))"
  using assms
  by (cases c)
     (simp_all add: case_prod_beta Let_def rng_floor_fst rng_floor_rng
                    randomChoice_fst randomChoice_rng)

lemma run_calls_Cons:
  "run_calls (c # cs) m =
     (fst (run_call c m) # fst (run_calls cs (snd (run_call c m))),
      snd (run_calls cs (snd (run_call c m))))"
  by (simp add: case_prod_beta)

lemma run_calls_seeded:
  assumes "list_all seeded cs" and "m_rng m1 = m_rng m2"
  shows "fst (run_calls cs m1) = fst (run_calls cs m2)
         \<and> m_rng (snd (run_calls cs m1)) = m_rng (snd (run_calls cs m2))"
  using assms
proof (induction cs arbitrary: m1 m2)
  case Nil
  then show ?case by simp
next
  case (Cons c cs)
  from Cons.prems have sc: "seeded c" and rest: "list_all seeded cs" by simp_all
  note step = run_call_seeded [OF sc Cons.prems(2)]
  from step have r: "m_rng (snd (run_call c m1)) = m_rng (snd (run_call c m2))" by simp
  note ih = Cons.IH [OF rest r]
  show ?case unfolding run_calls_Cons using step ih by simp
qed

lemma randomChoice_in_range:
  assumes "xs \<noteq> []"
  shows "fst (randomChoice xs m) \<in> set xs"
proof -
  let ?w = "uint (fst (mulberry32 (m_rng m)))"
  have w: "0 \<le> ?w" "?w < 4294967296"
    using uint_lt2p [of "fst (mulberry32 (m_rng m))"] by simp_all
  have n: "0 < int (length xs)" using assms by simp
  have "?w * int (length xs) < 4294967296 * int (length xs)"
    using w n by simp
  then have "(?w * int (length xs)) div 4294967296 < int (length xs)"
    by (simp add: div_less_iff_less_mult)
  moreover have "0 \<le> (?w * int (length xs)) div 4294967296"
    using w by (simp add: pos_imp_zdiv_nonneg_iff)
  ultimately have "nat ((?w * int (length xs)) div 4294967296) < length xs"
    by simp
  then show ?thesis by (simp add: randomChoice_fst)
qed

lemma uuid_keeps_stream: "m_rng (snd (run_call Uuid m)) = m_rng m"
  by (simp add: uuidv4_def)

text \<open>
  C2 as stated fails for \<open>uuid()\<close>: it takes its identifier from the UUID package, not
  from the seeded generator, and leaves the state of the generator as it was.  Two engines
  built with the same seed return different identifiers.
\<close>

theorem uuid_not_from_seed_counterexample:
  "m_rng machine_run1 = m_rng machine_run2
   \<and> fst (run_call Uuid machine_run1) \<noteq> fst (run_call Uuid machine_run2)
   \<and> m_rng (snd (run_call Uuid machine_run1)) = m_rng machine_run1"
  by (simp add: machine_run1_def machine_run2_def new_TemplateEngine_def uuidv4_def
                uuids_run1_def uuids_run2_def)

text \<open>
  C2, amended.  For every seed, two engines constructed with that seed return identical
  results for every sequence of calls of \<open>rand(lo, hi)\<close> and of the generators of
  \<open>faker.name\<close>, \<open>faker.internet\<close>, \<open>faker.address\<close>, \<open>faker.company\<close>,
  \<open>faker.commerce\<close>, \<open>faker.datatype.number\<close> and \<open>faker.datatype.boolean\<close>,
  wherever and whenever they run; all of them draw from the one seeded stream and leave it
  in the same state.
\<close>

theorem seeded_calls_same_seed_same_results:
  assumes "list_all seeded cs"
  shows "fst (run_calls cs (new_TemplateEngine seed clock1 uuids1))
           = fst (run_calls cs (new_TemplateEngine seed clock2 uuids2))
         \<and> m_rng (snd (run_calls cs (new_TemplateEngine seed clock1 uuids1)))
           = m_rng (snd (run_calls cs (new_TemplateEngine seed clock2 uuids2)))"
  using assms by (intro run_calls_seeded) (simp_all add: new_TemplateEngine_def)

theorem seeded_calls_same_seed_same_results_witness:
  "list_all seeded [FirstName, Rand 1 6]
   \<and> fst (run_calls [FirstName, Rand 1 6] machine_run1) = [JStr ''Noah'', JNum 6]
   \<and> fst (run_calls [FirstName, Rand 1 6] machine_run2) = [JStr ''Noah'', JNum 6]"
proof -
  have h: "list_all seeded [FirstName, Rand 1 6]" by simp
  have v: "fst (run_calls [FirstName, Rand 1 6] machine_run1) = [JStr ''Noah'', JNum 6]"
    by (simp add: machine_run1_def new_TemplateEngine_def createSeededRng_def hashString_def
                  truthy_str_def rng_floor_def randomChoice_def mulberry32_def Let_def names_def)
  show ?thesis
    using h v
          seeded_calls_same_seed_same_results [OF h, of "Some ''t''" 1000 uuids_run1 990000 uuids_run2]
    by (simp add: machine_run1_def machine_run2_def)
qed


end
